theory Spec2Isabelle
  imports Complex_Main "HOL-Library.AList"
begin

section \<open>JSON values\<close>

text \<open>
  The content-type definition, its field definitions and the submitted content record are
  JavaScript values parsed from JSON. A number is an exact rational (the literals of the
  source and of the examples are all exactly representable). A string is the list of its
  code units, each below 256. An object is the association list of its own keys, each
  key once, and a missing property reads as \<open>JUndefined\<close>.
\<close>

datatype jsval =
    JUndefined
  | JNull
  | JBool bool
  | JNum rat
  | JStr string
  | JArr "jsval list"
  | JObj "(string \<times> jsval) list"

type_synonym jsobj = "(string \<times> jsval) list"

text \<open>
  \<open>obj[k]\<close> for a key of the object's own. The keys that every object inherits
  (\<open>inheritedKeys\<close> below) read as functions in the runtime and as \<open>JUndefined\<close> here;
  none of the keys the source reads by name is one of them.
\<close>

definition jsGet :: "jsobj \<Rightarrow> string \<Rightarrow> jsval" where
  "jsGet obj k = (case map_of obj k of Some v \<Rightarrow> v | None \<Rightarrow> JUndefined)"

text \<open>The value of an attribute: \<open>undefined\<close> when \<open>attributes\<close> is not an object.\<close>

fun attributeOf :: "jsval \<Rightarrow> string \<Rightarrow> jsval" where
  "attributeOf (JObj kvs) k = jsGet kvs k"
| "attributeOf _ k = JUndefined"

text \<open>The properties every object inherits from \<open>Object.prototype\<close>.\<close>

definition inheritedKeys :: "string list" where
  "inheritedKeys =
    [''constructor'', ''__defineGetter__'', ''__defineSetter__'', ''hasOwnProperty'',
     ''__lookupGetter__'', ''__lookupSetter__'', ''isPrototypeOf'', ''propertyIsEnumerable'',
     ''toString'', ''valueOf'', ''__proto__'', ''toLocaleString'']"

text \<open>
  \<open>obj[k] = v\<close> on an object made by a literal, where \<open>v\<close> is an object. A key the object
  has keeps its place and takes the new value, a new key is added. The key \<open>__proto__\<close> is
  the accessor every such object inherits: the assignment replaces the prototype and
  gives the object no key of its own. Entries are kept in the order the keys were first
  written; the runtime lists the keys that are array indices first, which changes the
  order of an enumeration and nothing else.
\<close>

definition setProperty :: "string \<Rightarrow> 'v \<Rightarrow> (string \<times> 'v) list \<Rightarrow> (string \<times> 'v) list" where
  "setProperty k v obj = (if k = ''__proto__'' then obj else AList.update k v obj)"

text \<open>\<open>Object.assign(target, source)\<close>: every key of the source is written to the target.\<close>

definition objectAssign :: "(string \<times> 'v) list \<Rightarrow> (string \<times> 'v) list \<Rightarrow> (string \<times> 'v) list" where
  "objectAssign target source = foldl (\<lambda>acc kv. setProperty (fst kv) (snd kv) acc) target source"

text \<open>
  A key that is an array index: the decimal digits of a number, without a leading zero.
\<close>

fun decimalValue :: "nat \<Rightarrow> string \<Rightarrow> nat option" where
  "decimalValue n [] = Some n"
| "decimalValue n (ch # rest) =
     (if ch \<in> set ''0123456789'' then decimalValue (10 * n + (of_char ch - 48)) rest else None)"

definition arrayIndex :: "string \<Rightarrow> nat option" where
  "arrayIndex k =
     (if k = [] then None
      else if hd k = CHR ''0'' \<and> k \<noteq> ''0'' then None
      else decimalValue 0 k)"

text \<open>
  The keys of a validate.js key path: a dot separates two keys, a backslash takes the
  next dot or backslash into the key.
\<close>

fun keypathFrom :: "string \<Rightarrow> bool \<Rightarrow> string \<Rightarrow> string list" where
  "keypathFrom key escape [] = [key]"
| "keypathFrom key escape (ch # rest) =
     (if ch = CHR ''.'' then
        (if escape then keypathFrom (key @ [ch]) False rest else key # keypathFrom [] False rest)
      else if ch = CHR 0x5C then
        (if escape then keypathFrom (key @ [ch]) False rest else keypathFrom key True rest)
      else keypathFrom (key @ [ch]) False rest)"

text \<open>One step along a key path: \<open>obj[key]\<close> when \<open>obj\<close> is an object or an array.\<close>

fun propertyAt :: "jsval \<Rightarrow> string \<Rightarrow> jsval" where
  "propertyAt (JObj kvs) key = jsGet kvs key"
| "propertyAt (JArr xs) key =
     (if key = ''length'' then JNum (of_nat (length xs))
      else case arrayIndex key of
        Some i \<Rightarrow> (if i < length xs then xs ! i else JUndefined)
      | None \<Rightarrow> JUndefined)"
| "propertyAt _ key = JUndefined"

text \<open>The library's \<open>getDeepObjectValue\<close>: the value validate.js reads for an attribute.\<close>

definition getDeepObjectValue :: "jsval \<Rightarrow> string \<Rightarrow> jsval" where
  "getDeepObjectValue obj keypath = foldl propertyAt obj (keypathFrom [] False keypath)"

text \<open>
  \<open>===\<close> (and lodash's SameValueZero, which differs from it on NaN only) between two
  values that were parsed from JSON at different places: primitives compare by value, two
  arrays or two objects are different references.
\<close>

fun strictEquals :: "jsval \<Rightarrow> jsval \<Rightarrow> bool" where
  "strictEquals (JArr _) _ = False"
| "strictEquals (JObj _) _ = False"
| "strictEquals a b = (a = b)"

text \<open>
  \<open>_.uniq(array)\<close>: the values in order of first occurrence; a value is dropped when an
  equal one was already kept.
\<close>

fun uniqInto :: "jsval list \<Rightarrow> jsval list \<Rightarrow> jsval list" where
  "uniqInto seen [] = seen"
| "uniqInto seen (x # xs) =
     (if list_ex (\<lambda>s. strictEquals s x) seen then uniqInto seen xs
      else uniqInto (seen @ [x]) xs)"

definition uniq :: "jsval list \<Rightarrow> jsval list" where
  "uniq xs = uniqInto [] xs"

section \<open>The constraint catalogue\<close>

text \<open>
  A constraint set maps an attribute name to its rules, in the order the source writes
  them. Each rule is one key of a validate.js constraint object with its options; an
  option that is not given is \<open>JUndefined\<close> (or \<open>None\<close> for \<open>presence: true\<close>, which sets no
  \<open>allowEmpty\<close>). The \<open>message\<close> option of \<open>inclusion\<close> and \<open>format\<close> only words the report
  and is left out.
\<close>

datatype pattern = HashHexDigits nat  \<comment> \<open>\<open>/^#[0-9a-fA-F]{n}$/\<close>\<close>

datatype rule =
    Presence "bool option"            \<comment> \<open>\<open>allowEmpty\<close>\<close>
  | Length jsval jsval                \<comment> \<open>\<open>minimum\<close>, \<open>maximum\<close>\<close>
  | Numericality jsval jsval bool     \<comment> \<open>\<open>greaterThanOrEqualTo\<close>, \<open>lessThanOrEqualTo\<close>, \<open>onlyInteger\<close>\<close>
  | LessThanAttribute string
  | Inclusion "jsval list"            \<comment> \<open>\<open>within\<close>\<close>
  | Boolean
  | ArrayLength jsval jsval jsval     \<comment> \<open>\<open>is\<close>, \<open>minimum\<close>, \<open>maximum\<close>\<close>
  | UniqueArray
  | Url
  | Email
  | Datetime
  | Date
  | ChoicesUnion jsval                \<comment> \<open>\<open>choices\<close>\<close>
  | Format pattern
  | Media jsval                       \<comment> \<open>\<open>projectId\<close>\<close>
  | Entries jsval                     \<comment> \<open>\<open>projectId\<close>\<close>
  | ArrayOfStrings

type_synonym constraints = "(string \<times> rule list) list"

definition entryTypeConstraints :: constraints where
  "entryTypeConstraints =
    [(''name'', [Presence (Some False), Length (JNum 4) JUndefined]),
     (''description'', [Length (JNum 0) JUndefined]),
     (''metadata'', [Length (JNum 0) JUndefined]),
     (''projectId'', [Presence None, Numericality JUndefined JUndefined True]),
     (''userId'', [Presence None, Numericality JUndefined JUndefined True]),
     (''fields'', [Presence (Some True)])]"

definition commonFieldConstraints :: constraints where
  "commonFieldConstraints =
    [(''fieldType'', [Presence (Some False)]),
     (''name'', [Presence None, Length (JNum 4) (JNum 64)]),
     (''label'', [Presence None, Length (JNum 4) (JNum 64)]),
     (''description'', [Presence (Some True)]),
     (''required'', [Boolean, Presence (Some False)]),
     (''disabled'', [Boolean, Presence (Some False)])]"

definition textFieldConstraints :: constraints where
  "textFieldConstraints =
    [(''minLength'', [Presence None, Numericality (JNum 0) (JNum 999) True,
                      LessThanAttribute ''maxLength'']),
     (''maxLength'', [Presence None, Numericality (JNum 1) (JNum 1000) True]),
     (''format'', [Presence None, Inclusion [JStr ''plaintext'', JStr ''uri'', JStr ''email'']])]"

definition longTextFieldConstraints :: constraints where
  "longTextFieldConstraints =
    [(''minLength'', [Presence None, Numericality (JNum 0) (JNum 29999) True,
                      LessThanAttribute ''maxLength'']),
     (''maxLength'', [Presence None, Numericality (JNum 1) (JNum 50000) True]),
     (''format'', [Presence None, Inclusion [JStr ''plaintext'', JStr ''markdown'']])]"

definition booleanFieldConstraints :: constraints where
  "booleanFieldConstraints =
    [(''labelTrue'', [Presence None, Length (JNum 1) (JNum 32)]),
     (''labelFalse'', [Presence None, Length (JNum 1) (JNum 32)])]"

definition numberFieldConstraints :: constraints where
  "numberFieldConstraints =
    [(''minValue'', [Numericality JUndefined JUndefined False, LessThanAttribute ''maxValue'']),
     (''maxValue'', [Numericality JUndefined JUndefined False]),
     (''format'', [Presence None, Inclusion [JStr ''number'', JStr ''integer'']])]"

definition dateFieldConstraints :: constraints where
  "dateFieldConstraints =
    [(''format'', [Presence None, Inclusion [JStr ''datetime'', JStr ''date'']])]"

definition choiceFieldConstraints :: constraints where
  "choiceFieldConstraints =
    [(''choices'', [Presence None, ArrayLength JUndefined (JNum 2) (JNum 128), UniqueArray]),
     (''format'', [Presence None, Inclusion [JStr ''single'', JStr ''multiple'']])]"

definition colorFieldConstraints :: constraints where
  "colorFieldConstraints =
    [(''format'', [Presence None, Inclusion [JStr ''rgb'', JStr ''rgba'']])]"

definition mediaFieldConstraints :: constraints where
  "mediaFieldConstraints =
    [(''minLength'', [Presence None, Numericality (JNum 0) (JNum 999) True,
                      LessThanAttribute ''maxLength'']),
     (''maxLength'', [Presence None, Numericality (JNum 1) (JNum 1000) True])]"

definition linkFieldConstraints :: constraints where
  "linkFieldConstraints =
    [(''minLength'', [Presence None, Numericality (JNum 0) (JNum 999) True,
                      LessThanAttribute ''maxLength'']),
     (''maxLength'', [Presence None, Numericality (JNum 1) (JNum 1000) True])]"

definition listFieldConstraints :: constraints where
  "listFieldConstraints =
    [(''minLength'', [Presence None, Numericality (JNum 0) (JNum 999) True,
                      LessThanAttribute ''maxLength'']),
     (''maxLength'', [Presence None, Numericality (JNum 1) (JNum 1000) True])]"

definition fieldTypeConstraints :: "(string \<times> constraints) list" where
  "fieldTypeConstraints =
    [(''TEXT'', objectAssign (objectAssign [] commonFieldConstraints) textFieldConstraints),
     (''LONGTEXT'', objectAssign (objectAssign [] commonFieldConstraints) longTextFieldConstraints),
     (''BOOLEAN'', objectAssign (objectAssign [] commonFieldConstraints) booleanFieldConstraints),
     (''NUMBER'', objectAssign (objectAssign [] commonFieldConstraints) numberFieldConstraints),
     (''DATE'', objectAssign (objectAssign [] commonFieldConstraints) dateFieldConstraints),
     (''CHOICE'', objectAssign (objectAssign [] commonFieldConstraints) choiceFieldConstraints),
     (''COLOR'', objectAssign (objectAssign [] commonFieldConstraints) colorFieldConstraints),
     (''MEDIA'', objectAssign (objectAssign [] commonFieldConstraints) mediaFieldConstraints),
     (''LINK'', objectAssign (objectAssign [] commonFieldConstraints) linkFieldConstraints),
     (''LIST'', objectAssign (objectAssign [] commonFieldConstraints) listFieldConstraints)]"

text \<open>\<open>Object.keys(fieldTypeConstraints)\<close>.\<close>

definition fieldTypes :: "string list" where
  "fieldTypes = map fst fieldTypeConstraints"

section \<open>The rule engine\<close>

text \<open>
  The module \<open>utils/validate\<close> that the model imports is the validate.js library with
  the project's own rules registered on it. The library is not part of the repository;
  its rules (\<open>presence\<close>, \<open>length\<close>, \<open>numericality\<close>, \<open>inclusion\<close>, \<open>format\<close>, \<open>url\<close>,
  \<open>email\<close>, \<open>datetime\<close>, \<open>date\<close>) are written after its documented behaviour: only
  \<open>presence\<close> reports a value that is \<open>undefined\<close> or \<open>null\<close>, every other rule passes it,
  and all the rules of an attribute are run and their reports collected. What the library
  leaves to its user or to the runtime, and the stores the referential rules ask, are the
  collaborators below.
\<close>

record collab =
  toNumber :: "string \<Rightarrow> rat option"               \<comment> \<open>the runtime's \<open>+value\<close> on a string, \<open>None\<close> for NaN\<close>
  numberToString :: "rat \<Rightarrow> string"                 \<comment> \<open>the runtime's string form of a number\<close>
  lessThanOtherwise :: "jsval \<Rightarrow> jsval \<Rightarrow> bool"     \<comment> \<open>\<open>lessThanAttribute\<close> off the numbers, see below\<close>
  isUrl :: "string \<Rightarrow> bool"                        \<comment> \<open>the library's URL pattern\<close>
  isEmail :: "string \<Rightarrow> bool"                      \<comment> \<open>the library's e-mail pattern\<close>
  parse :: "jsval \<Rightarrow> int option"                   \<comment> \<open>\<open>validate.validators.datetime.parse\<close>: milliseconds, \<open>None\<close> for NaN\<close>
  mediaExistsInProject :: "jsval list \<Rightarrow> jsval \<Rightarrow> bool"
  entriesExistInProject :: "jsval list \<Rightarrow> jsval \<Rightarrow> bool"

datatype violation =
    CantBeBlank
  | HasIncorrectLength
  | IsTooShort
  | IsTooLong
  | IsNotANumber
  | MustBeAnInteger
  | MustBeGreaterThanOrEqualTo
  | MustBeLessThanOrEqualTo
  | IsNotIncluded
  | IsInvalid
  | IsNotAValidUrl
  | IsNotAValidEmail
  | MustBeAValidDate
  | MustBeLessThanAttribute string
  | MustBeBoolean
  | MustBeAnArray
  | HasWrongArrayLength
  | ArrayIsTooShort
  | ArrayIsTooLong
  | MustBeUnique
  | IsNotAValidChoice
  | MustBeAnArrayOfStrings
  | MediaNotInProject
  | EntriesNotInProject

type_synonym violations = "(string \<times> violation list) list"

definition isDefined :: "jsval \<Rightarrow> bool" where
  "isDefined v = (v \<noteq> JUndefined \<and> v \<noteq> JNull)"

text \<open>The code units below 256 that the library's test for a blank string takes for white space.\<close>

definition isSpace :: "char \<Rightarrow> bool" where
  "isSpace ch =
     (ch \<in> set [CHR '' '', CHR 0x09, CHR 0x0A, CHR 0x0B, CHR 0x0C, CHR 0x0D, CHR 0xA0])"

text \<open>The library's \<open>isEmpty\<close>: absent, a blank string, an empty array, an empty object.\<close>

fun isEmpty :: "jsval \<Rightarrow> bool" where
  "isEmpty JUndefined = True"
| "isEmpty JNull = True"
| "isEmpty (JStr s) = list_all isSpace s"
| "isEmpty (JArr xs) = (xs = [])"
| "isEmpty (JObj kvs) = (kvs = [])"
| "isEmpty (JBool _) = False"
| "isEmpty (JNum _) = False"

text \<open>\<open>value.length\<close> when it is a number; a string has as many units as characters here.\<close>

fun lengthOf :: "jsval \<Rightarrow> rat option" where
  "lengthOf (JStr s) = Some (of_nat (length s))"
| "lengthOf (JArr xs) = Some (of_nat (length xs))"
| "lengthOf (JObj kvs) = (case jsGet kvs ''length'' of JNum n \<Rightarrow> Some n | _ \<Rightarrow> None)"
| "lengthOf _ = None"

definition isInteger :: "rat \<Rightarrow> bool" where
  "isInteger q = (q = of_int \<lfloor>q\<rfloor>)"

text \<open>\<open>v.isNumber(bound) && op(value, bound)\<close> fails.\<close>

fun below :: "rat \<Rightarrow> jsval \<Rightarrow> bool" where
  "below q (JNum b) = (q < b)"
| "below q _ = False"

fun above :: "rat \<Rightarrow> jsval \<Rightarrow> bool" where
  "above q (JNum b) = (b < q)"
| "above q _ = False"

fun differs :: "rat \<Rightarrow> jsval \<Rightarrow> bool" where
  "differs q (JNum b) = (q \<noteq> b)"
| "differs q _ = False"

definition presence :: "bool option \<Rightarrow> jsval \<Rightarrow> violation list" where
  "presence allowEmpty v =
     (if (if allowEmpty \<noteq> Some False then \<not> isDefined v else isEmpty v)
      then [CantBeBlank] else [])"

definition length_rule :: "jsval \<Rightarrow> jsval \<Rightarrow> jsval \<Rightarrow> violation list" where
  "length_rule minimum maximum v =
     (if \<not> isDefined v then []
      else case lengthOf v of
        None \<Rightarrow> [HasIncorrectLength]
      | Some n \<Rightarrow>
          (if below n minimum then [IsTooShort] else []) @
          (if above n maximum then [IsTooLong] else []))"

text \<open>
  The checks of \<open>numericality\<close> on a number: an integer when \<open>onlyInteger\<close> is set, and
  only then the bounds.
\<close>

definition numberChecks :: "jsval \<Rightarrow> jsval \<Rightarrow> bool \<Rightarrow> rat \<Rightarrow> violation list" where
  "numberChecks greaterThanOrEqualTo lessThanOrEqualTo onlyInteger q =
     (if onlyInteger \<and> \<not> isInteger q then [MustBeAnInteger]
      else (if below q greaterThanOrEqualTo then [MustBeGreaterThanOrEqualTo] else []) @
           (if above q lessThanOrEqualTo then [MustBeLessThanOrEqualTo] else []))"

text \<open>
  \<open>numericality\<close>: a string that is not blank is first converted with \<open>+value\<close>, as the
  library does when \<open>noStrings\<close> is not set.
\<close>

definition numericality :: "collab \<Rightarrow> jsval \<Rightarrow> jsval \<Rightarrow> bool \<Rightarrow> jsval \<Rightarrow> violation list" where
  "numericality c greaterThanOrEqualTo lessThanOrEqualTo onlyInteger v =
     (if \<not> isDefined v then []
      else case v of
        JNum q \<Rightarrow> numberChecks greaterThanOrEqualTo lessThanOrEqualTo onlyInteger q
      | JStr s \<Rightarrow>
          (if isEmpty v then [IsNotANumber]
           else case toNumber c s of
             Some q \<Rightarrow> numberChecks greaterThanOrEqualTo lessThanOrEqualTo onlyInteger q
           | None \<Rightarrow> [IsNotANumber])
      | _ \<Rightarrow> [IsNotANumber])"

definition inclusion :: "jsval list \<Rightarrow> jsval \<Rightarrow> violation list" where
  "inclusion allowed v =
     (if \<not> isDefined v then []
      else if list_ex (\<lambda>w. strictEquals w v) allowed then [] else [IsNotIncluded])"

definition isHexDigit :: "char \<Rightarrow> bool" where
  "isHexDigit ch = (ch \<in> set ''0123456789abcdefABCDEF'')"

fun matches :: "pattern \<Rightarrow> string \<Rightarrow> bool" where
  "matches (HashHexDigits n) [] = False"
| "matches (HashHexDigits n) (ch # rest) =
     (ch = CHR ''#'' \<and> length rest = n \<and> list_all isHexDigit rest)"

definition format_rule :: "pattern \<Rightarrow> jsval \<Rightarrow> violation list" where
  "format_rule pat v =
     (if \<not> isDefined v then []
      else case v of JStr s \<Rightarrow> (if matches pat s then [] else [IsInvalid]) | _ \<Rightarrow> [IsInvalid])"

definition url :: "collab \<Rightarrow> jsval \<Rightarrow> violation list" where
  "url c v =
     (if \<not> isDefined v then []
      else case v of JStr s \<Rightarrow> (if isUrl c s then [] else [IsNotAValidUrl])
           | _ \<Rightarrow> [IsNotAValidUrl])"

definition email :: "collab \<Rightarrow> jsval \<Rightarrow> violation list" where
  "email c v =
     (if \<not> isDefined v then []
      else case v of JStr s \<Rightarrow> (if isEmail c s then [] else [IsNotAValidEmail])
           | _ \<Rightarrow> [IsNotAValidEmail])"

definition datetime :: "collab \<Rightarrow> bool \<Rightarrow> jsval \<Rightarrow> violation list" where
  "datetime c dateOnly v =
     (if \<not> isDefined v then []
      else case parse c v of
        None \<Rightarrow> [MustBeAValidDate]
      | Some t \<Rightarrow> (if dateOnly \<and> t mod 86400000 \<noteq> 0 then [MustBeAValidDate] else []))"

text \<open>
  Modelled from the spec: the project's own rules, registered in \<open>utils/validate\<close>, are
  not among the sources. Each is given the meaning the spec words for it.

  \<open>lessThanAttribute\<close>: "attribute A's validated value must be strictly less than
  attribute B's validated value on the same object". For two numbers the rule reports
  exactly when the first is not strictly less than the second. What it does when one of
  the two values is absent or is not a number the spec does not say: that answer is the
  collaborator \<open>lessThanOtherwise\<close>.
\<close>

definition lessThanAttribute :: "collab \<Rightarrow> string \<Rightarrow> jsval \<Rightarrow> jsval \<Rightarrow> violation list" where
  "lessThanAttribute c other attributes v =
     (case v of
        JNum a \<Rightarrow>
          (case attributeOf attributes other of
             JNum b \<Rightarrow> (if a < b then [] else [MustBeLessThanAttribute other])
           | w \<Rightarrow> (if lessThanOtherwise c v w then [MustBeLessThanAttribute other] else []))
      | _ \<Rightarrow>
          (if lessThanOtherwise c v (attributeOf attributes other)
           then [MustBeLessThanAttribute other] else []))"

text \<open>
  The rules below are those of the value validator, where the spec has only the presence
  rule of a required field report a value that is missing: each of them passes a value
  that is absent.
\<close>

text \<open>Modelled from the spec: \<open>boolean\<close>, "must be a boolean".\<close>

definition boolean :: "jsval \<Rightarrow> violation list" where
  "boolean v =
     (if \<not> isDefined v then []
      else case v of JBool _ \<Rightarrow> [] | _ \<Rightarrow> [MustBeBoolean])"

text \<open>
  Modelled from the spec: \<open>arrayLength\<close>, "array length within [minLength, maxLength]",
  "exactly one value" for \<open>is\<close>, "array length \<ge> 1" for a minimum alone.
\<close>

definition arrayLength :: "jsval \<Rightarrow> jsval \<Rightarrow> jsval \<Rightarrow> jsval \<Rightarrow> violation list" where
  "arrayLength exactly minimum maximum v =
     (if \<not> isDefined v then []
      else case v of
        JArr xs \<Rightarrow>
          (if differs (of_nat (length xs)) exactly then [HasWrongArrayLength] else []) @
          (if below (of_nat (length xs)) minimum then [ArrayIsTooShort] else []) @
          (if above (of_nat (length xs)) maximum then [ArrayIsTooLong] else [])
      | _ \<Rightarrow> [MustBeAnArray])"

text \<open>Modelled from the spec: \<open>uniqueArray\<close>, "all entries unique".\<close>

definition uniqueArray :: "jsval \<Rightarrow> violation list" where
  "uniqueArray v =
     (case v of
        JArr xs \<Rightarrow> (if length (uniq xs) = length xs then [] else [MustBeUnique])
      | _ \<Rightarrow> [])"

text \<open>
  Modelled from the spec: \<open>choicesUnion\<close>, "every submitted value must be a member of
  \<open>choices\<close>".
\<close>

definition choicesUnion :: "jsval \<Rightarrow> jsval \<Rightarrow> violation list" where
  "choicesUnion choices v =
     (if \<not> isDefined v then []
      else case v of
        JArr xs \<Rightarrow>
          (case choices of
             JArr cs \<Rightarrow>
               (if list_all (\<lambda>x. list_ex (\<lambda>ch. strictEquals ch x) cs) xs then []
                else [IsNotAValidChoice])
           | _ \<Rightarrow> [IsNotAValidChoice])
      | _ \<Rightarrow> [IsNotAValidChoice])"

text \<open>Modelled from the spec: \<open>arrayOfStrings\<close>, "must be an array of strings".\<close>

fun isString :: "jsval \<Rightarrow> bool" where
  "isString (JStr _) = True"
| "isString _ = False"

definition arrayOfStrings :: "jsval \<Rightarrow> violation list" where
  "arrayOfStrings v =
     (if \<not> isDefined v then []
      else case v of
        JArr xs \<Rightarrow> (if list_all isString xs then [] else [MustBeAnArrayOfStrings])
      | _ \<Rightarrow> [MustBeAnArrayOfStrings])"

text \<open>
  Modelled from the spec: \<open>media\<close> and \<open>entries\<close>, "every referenced id must exist in the
  given project", asked of the lookup collaborators, which answer true "only if every id
  in the set resolves within that project". A lookup that itself fails is not part of
  the model.
\<close>

definition media :: "collab \<Rightarrow> jsval \<Rightarrow> jsval \<Rightarrow> violation list" where
  "media c projectId v =
     (if \<not> isDefined v then []
      else case v of
        JArr ids \<Rightarrow> (if mediaExistsInProject c ids projectId then [] else [MediaNotInProject])
      | _ \<Rightarrow> [MediaNotInProject])"

definition entries :: "collab \<Rightarrow> jsval \<Rightarrow> jsval \<Rightarrow> violation list" where
  "entries c projectId v =
     (if \<not> isDefined v then []
      else case v of
        JArr ids \<Rightarrow> (if entriesExistInProject c ids projectId then [] else [EntriesNotInProject])
      | _ \<Rightarrow> [EntriesNotInProject])"

text \<open>One rule on one value; \<open>attributes\<close> is the object the value is an attribute of.\<close>

fun checkRule :: "collab \<Rightarrow> jsval \<Rightarrow> jsval \<Rightarrow> rule \<Rightarrow> violation list" where
  "checkRule c attributes v (Presence allowEmpty) = presence allowEmpty v"
| "checkRule c attributes v (Length minimum maximum) = length_rule minimum maximum v"
| "checkRule c attributes v (Numericality ge le onlyInteger) = numericality c ge le onlyInteger v"
| "checkRule c attributes v (LessThanAttribute other) = lessThanAttribute c other attributes v"
| "checkRule c attributes v (Inclusion allowed) = inclusion allowed v"
| "checkRule c attributes v Boolean = boolean v"
| "checkRule c attributes v (ArrayLength exactly minimum maximum) =
     arrayLength exactly minimum maximum v"
| "checkRule c attributes v UniqueArray = uniqueArray v"
| "checkRule c attributes v Url = url c v"
| "checkRule c attributes v Email = email c v"
| "checkRule c attributes v Datetime = datetime c False v"
| "checkRule c attributes v Date = datetime c True v"
| "checkRule c attributes v (ChoicesUnion choices) = choicesUnion choices v"
| "checkRule c attributes v (Format pat) = format_rule pat v"
| "checkRule c attributes v (Media projectId) = media c projectId v"
| "checkRule c attributes v (Entries projectId) = entries c projectId v"
| "checkRule c attributes v ArrayOfStrings = arrayOfStrings v"

definition checkAttribute :: "collab \<Rightarrow> jsval \<Rightarrow> string \<times> rule list \<Rightarrow> string \<times> violation list" where
  "checkAttribute c attributes ar =
     (fst ar,
      concat (map (checkRule c attributes (getDeepObjectValue attributes (fst ar))) (snd ar)))"

text \<open>
  \<open>validate(attributes, constraints)\<close>: every rule of every constrained attribute is run,
  and the attributes with a violation are reported with all their violations. The library
  returns \<open>undefined\<close> when there is none: that is the empty list here. The library
  collects the reports in an object keyed by attribute and reads the attributes of the
  constraint object and of \<open>attributes\<close> with the inherited ones; the model is the library
  on constraint sets none of whose keys is inherited (\<open>inheritedKeys\<close>), as is every
  constraint set of the source.
\<close>

definition validate :: "collab \<Rightarrow> jsval \<Rightarrow> constraints \<Rightarrow> violations" where
  "validate c attributes cs =
     filter (\<lambda>e. snd e \<noteq> []) (map (checkAttribute c attributes) cs)"

text \<open>\<open>validate.single(value, rules)\<close>: the rules on one value, the reports in one list.\<close>

definition validate_single :: "collab \<Rightarrow> jsval \<Rightarrow> rule list \<Rightarrow> violation list" where
  "validate_single c v rules =
     concat (map (checkRule c (JObj [(''single'', v)]) v) rules)"

text \<open>
  \<open>validate.async(attributes, constraints)\<close>: as \<open>validate\<close>, with the referential rules
  awaited; the promise is rejected with the reports when there is one, here a non-empty
  list.
\<close>

definition validate_async :: "collab \<Rightarrow> jsval \<Rightarrow> constraints \<Rightarrow> violations" where
  "validate_async c attributes cs = validate c attributes cs"


section \<open>Validating a content-type definition\<close>

text \<open>
  What \<open>$beforeValidate\<close> throws. A \<open>ValidationError\<close> carries the reports of the
  top-level attributes (\<open>err.errors = errors\<close>), a message, or the reports of the fields
  by field name (\<open>err.errors = {fields: fieldErrors}\<close>). \<open>InvalidFieldType t\<close> is the
  \<open>ValidationError\<close> whose message is the tag \<open>t\<close> between quotes followed by
  \<open>is not a valid field type\<close>. \<open>TypeError\<close> is the runtime's, for a property of
  \<open>undefined\<close> or \<open>null\<close> and for a call of what is not a function.
\<close>

datatype error =
    ValidationErrors violations
  | ValidationMessage string
  | InvalidFieldType jsval
  | ValidationFieldErrors "(string \<times> violations) list"
  | TypeError

text \<open>
  \<open>value.k\<close> for the keys \<open>name\<close> and \<open>fieldType\<close>, which no string, number, boolean or
  array has.
\<close>

fun property :: "jsval \<Rightarrow> string \<Rightarrow> error + jsval" where
  "property JUndefined k = Inl TypeError"
| "property JNull k = Inl TypeError"
| "property (JObj kvs) k = Inr (jsGet kvs k)"
| "property _ k = Inr JUndefined"

text \<open>\<open>json.fields.map(field => field.name)\<close>.\<close>

fun fieldNamesOf :: "jsval list \<Rightarrow> error + jsval list" where
  "fieldNamesOf [] = Inr []"
| "fieldNamesOf (field # rest) =
     (case property field ''name'' of
        Inl e \<Rightarrow> Inl e
      | Inr n \<Rightarrow> (case fieldNamesOf rest of Inl e \<Rightarrow> Inl e | Inr ns \<Rightarrow> Inr (n # ns)))"

text \<open>
  \<open>fieldTypeConstraints[field.fieldType]\<close>. The lookup is reached by a tag that passed
  the inclusion rule: a known tag, or one that is absent, for which the lookup gives
  \<open>undefined\<close> and \<open>validate\<close> then has no constraint to report on.
\<close>

fun constraintsFor :: "jsval \<Rightarrow> constraints" where
  "constraintsFor (JStr tag) = (case map_of fieldTypeConstraints tag of Some cs \<Rightarrow> cs | None \<Rightarrow> [])"
| "constraintsFor _ = []"

text \<open>
  The string form of a value used as a property key: an array is the string forms of its
  elements joined by commas, with nothing for \<open>null\<close> and \<open>undefined\<close>.
\<close>

fun propertyKey :: "collab \<Rightarrow> jsval \<Rightarrow> string"
  and elementsKey :: "collab \<Rightarrow> jsval list \<Rightarrow> string" where
  "propertyKey c JUndefined = ''undefined''"
| "propertyKey c JNull = ''null''"
| "propertyKey c (JBool b) = (if b then ''true'' else ''false'')"
| "propertyKey c (JNum q) = numberToString c q"
| "propertyKey c (JStr s) = s"
| "propertyKey c (JArr xs) = elementsKey c xs"
| "propertyKey c (JObj kvs) = ''[object Object]''"
| "elementsKey c [] = []"
| "elementsKey c (x # xs) =
     (if x = JUndefined \<or> x = JNull then [] else propertyKey c x) @
     (if xs = [] then [] else '','' @ elementsKey c xs)"

text \<open>
  The \<open>forEach\<close> over the fields, with \<open>fieldErrors\<close> threaded through.
  \<open>fieldErrors[field.name] = errors\<close> is an assignment to the key that is the string form
  of the name.
\<close>

fun forEachField ::
  "collab \<Rightarrow> jsval list \<Rightarrow> (string \<times> violations) list \<Rightarrow> error + (string \<times> violations) list" where
  "forEachField c [] fieldErrors = Inr fieldErrors"
| "forEachField c (field # rest) fieldErrors =
     (case property field ''fieldType'' of
        Inl e \<Rightarrow> Inl e
      | Inr fieldType \<Rightarrow>
          if validate_single c fieldType [Inclusion (map JStr fieldTypes)] \<noteq> []
          then Inl (InvalidFieldType fieldType)
          else if validate c field (constraintsFor fieldType) \<noteq> []
          then (case property field ''name'' of
                  Inl e \<Rightarrow> Inl e
                | Inr n \<Rightarrow>
                    forEachField c rest
                      (setProperty (propertyKey c n)
                         (validate c field (constraintsFor fieldType)) fieldErrors))
          else forEachField c rest fieldErrors)"

text \<open>
  What one pass of the loop body does to \<open>fieldErrors\<close> for a field object whose tag is
  accepted.
\<close>

definition fieldStep :: "collab \<Rightarrow> (string \<times> violations) list \<Rightarrow> jsobj \<Rightarrow> (string \<times> violations) list" where
  "fieldStep c fieldErrors field =
     (if validate c (JObj field) (constraintsFor (jsGet field ''fieldType'')) \<noteq> []
      then setProperty (propertyKey c (jsGet field ''name''))
             (validate c (JObj field) (constraintsFor (jsGet field ''fieldType''))) fieldErrors
      else fieldErrors)"

text \<open>\<open>$beforeValidate(jsonSchema, json, opt)\<close>; \<open>_.isEmpty\<close> looks at the object's own keys.\<close>

definition beforeValidate :: "collab \<Rightarrow> 'j \<Rightarrow> jsobj \<Rightarrow> error + 'j" where
  "beforeValidate c jsonSchema json =
     (if validate c (JObj json) entryTypeConstraints \<noteq> []
      then Inl (ValidationErrors (validate c (JObj json) entryTypeConstraints))
      else case jsGet json ''fields'' of
        JArr fs \<Rightarrow>
          (case fieldNamesOf fs of
             Inl e \<Rightarrow> Inl e
           | Inr fieldNames \<Rightarrow>
               if length fieldNames \<noteq> length (uniq fieldNames)
               then Inl (ValidationMessage ''Field names must be unique'')
               else (case forEachField c fs [] of
                       Inl e \<Rightarrow> Inl e
                     | Inr fieldErrors \<Rightarrow>
                         if fieldErrors \<noteq> [] then Inl (ValidationFieldErrors fieldErrors)
                         else Inr jsonSchema))
      | _ \<Rightarrow> Inl TypeError)"

section \<open>The schema document\<close>

definition commonFieldAttributes :: jsobj where
  "commonFieldAttributes =
    [(''name'', JObj [(''type'', JStr ''string''), (''minLength'', JNum 4), (''maxLength'', JNum 64)]),
     (''label'', JObj [(''type'', JStr ''string''), (''minLength'', JNum 4), (''maxLength'', JNum 64)]),
     (''description'', JObj [(''type'', JStr ''string''), (''default'', JStr []), (''maxLength'', JNum 128)]),
     (''required'', JObj [(''type'', JStr ''boolean''), (''default'', JBool False)]),
     (''disabled'', JObj [(''type'', JStr ''boolean''), (''default'', JBool False)])]"

definition jsonSchema :: jsval where
  "jsonSchema =
    JObj
     [(''type'', JStr ''object''),
      (''additionalProperties'', JBool False),
      (''properties'', JObj
        [(''id'', JObj [(''type'', JStr ''integer'')]),
         (''name'', JObj [(''type'', JStr ''string''), (''minLength'', JNum 1), (''maxLength'', JNum 64)]),
         (''description'', JObj [(''type'', JStr ''string''), (''default'', JStr []), (''maxLength'', JNum 128)]),
         (''metadata'', JObj [(''type'', JStr ''string''), (''default'', JStr []), (''maxLength'', JNum 3000)]),
         (''projectId'', JObj [(''type'', JStr ''integer'')]),
         (''userId'', JObj [(''type'', JStr ''integer'')]),
         (''fields'', JObj
           [(''type'', JStr ''array''),
            (''items'', JObj
              [(''type'', JStr ''object''),
               (''oneOf'', JArr
                 [
               JObj
                [(''properties'', JObj (objectAssign
                    [(''fieldType'', JObj [(''type'', JStr ''string''), (''pattern'', JStr ''^TEXT$'')]),
                     (''minLength'', JObj [(''type'', JStr ''integer''), (''minimum'', JNum 0), (''maximum'', JNum 999)]),
                     (''maxLength'', JObj [(''type'', JStr ''integer''), (''minimum'', JNum 1), (''maximum'', JNum 1000)]),
                     (''format'', JObj [(''type'', JStr ''string''), (''enum'', JArr [JStr ''plaintext'', JStr ''uri'', JStr ''email''])])]
                    commonFieldAttributes)),
                 (''additionalProperties'', JBool False),
                 (''required'', JArr [JStr ''fieldType'', JStr ''name'', JStr ''label'', JStr ''description'', JStr ''required'', JStr ''disabled'', JStr ''minLength'', JStr ''maxLength'', JStr ''format''])],
               JObj
                [(''properties'', JObj (objectAssign
                    [(''fieldType'', JObj [(''type'', JStr ''string''), (''pattern'', JStr ''^LONGTEXT$'')]),
                     (''minLength'', JObj [(''type'', JStr ''integer''), (''minimum'', JNum 0), (''maximum'', JNum 29999)]),
                     (''maxLength'', JObj [(''type'', JStr ''integer''), (''minimum'', JNum 1), (''maximum'', JNum 50000)]),
                     (''format'', JObj [(''type'', JStr ''string''), (''enum'', JArr [JStr ''plaintext'', JStr ''markdown''])])]
                    commonFieldAttributes)),
                 (''additionalProperties'', JBool False),
                 (''required'', JArr [JStr ''fieldType'', JStr ''name'', JStr ''label'', JStr ''description'', JStr ''required'', JStr ''disabled'', JStr ''minLength'', JStr ''maxLength'', JStr ''format''])],
               JObj
                [(''properties'', JObj (objectAssign
                    [(''fieldType'', JObj [(''type'', JStr ''string''), (''pattern'', JStr ''^BOOLEAN$'')]),
                     (''labelTrue'', JObj [(''type'', JStr ''string''), (''minLength'', JNum 1), (''maxLength'', JNum 32)]),
                     (''labelFalse'', JObj [(''type'', JStr ''string''), (''minLength'', JNum 1), (''maxLength'', JNum 32)])]
                    commonFieldAttributes)),
                 (''additionalProperties'', JBool False),
                 (''required'', JArr [JStr ''fieldType'', JStr ''name'', JStr ''label'', JStr ''description'', JStr ''required'', JStr ''disabled'', JStr ''labelTrue'', JStr ''labelFalse''])],
               JObj
                [(''properties'', JObj (objectAssign
                    [(''fieldType'', JObj [(''type'', JStr ''string''), (''pattern'', JStr ''^NUMBER$'')]),
                     (''minValue'', JObj [(''type'', JStr ''number'')]),
                     (''maxValue'', JObj [(''type'', JStr ''number'')]),
                     (''format'', JObj [(''type'', JStr ''string''), (''enum'', JArr [JStr ''number'', JStr ''integer''])])]
                    commonFieldAttributes)),
                 (''additionalProperties'', JBool False),
                 (''required'', JArr [JStr ''fieldType'', JStr ''name'', JStr ''label'', JStr ''description'', JStr ''required'', JStr ''disabled'', JStr ''minValue'', JStr ''maxValue'', JStr ''format''])],
               JObj
                [(''properties'', JObj (objectAssign
                    [(''fieldType'', JObj [(''type'', JStr ''string''), (''pattern'', JStr ''^DATE$'')]),
                     (''format'', JObj [(''type'', JStr ''string''), (''enum'', JArr [JStr ''datetime'', JStr ''date''])])]
                    commonFieldAttributes)),
                 (''additionalProperties'', JBool False),
                 (''required'', JArr [JStr ''fieldType'', JStr ''name'', JStr ''label'', JStr ''description'', JStr ''required'', JStr ''disabled'', JStr ''format''])],
               JObj
                [(''properties'', JObj (objectAssign
                    [(''fieldType'', JObj [(''type'', JStr ''string''), (''pattern'', JStr ''^CHOICE$'')]),
                     (''choices'', JObj [(''type'', JStr ''array''), (''items'', JObj [(''type'', JStr ''string'')]),
                                          (''minLength'', JNum 2), (''maxLength'', JNum 128)]),
                     (''format'', JObj [(''type'', JStr ''string''), (''enum'', JArr [JStr ''single'', JStr ''multiple''])])]
                    commonFieldAttributes)),
                 (''additionalProperties'', JBool False),
                 (''required'', JArr [JStr ''fieldType'', JStr ''name'', JStr ''label'', JStr ''description'', JStr ''required'', JStr ''disabled'', JStr ''choices'', JStr ''format''])],
               JObj
                [(''properties'', JObj (objectAssign
                    [(''fieldType'', JObj [(''type'', JStr ''string''), (''pattern'', JStr ''^COLOR$'')]),
                     (''format'', JObj [(''type'', JStr ''string''), (''enum'', JArr [JStr ''rgb'', JStr ''rgba''])])]
                    commonFieldAttributes)),
                 (''additionalProperties'', JBool False),
                 (''required'', JArr [JStr ''fieldType'', JStr ''name'', JStr ''label'', JStr ''description'', JStr ''required'', JStr ''disabled'', JStr ''format''])],
               JObj
                [(''properties'', JObj (objectAssign
                    [(''fieldType'', JObj [(''type'', JStr ''string''), (''pattern'', JStr ''^MEDIA$'')]),
                     (''minLength'', JObj [(''type'', JStr ''integer''), (''minimum'', JNum 0), (''maximum'', JNum 999)]),
                     (''maxLength'', JObj [(''type'', JStr ''integer''), (''minimum'', JNum 1), (''maximum'', JNum 1000)])]
                    commonFieldAttributes)),
                 (''additionalProperties'', JBool False),
                 (''required'', JArr [JStr ''fieldType'', JStr ''name'', JStr ''label'', JStr ''description'', JStr ''required'', JStr ''disabled'', JStr ''minLength'', JStr ''maxLength''])],
               JObj
                [(''properties'', JObj (objectAssign
                    [(''fieldType'', JObj [(''type'', JStr ''string''), (''pattern'', JStr ''^LINK$'')]),
                     (''minLength'', JObj [(''type'', JStr ''integer''), (''minimum'', JNum 0), (''maximum'', JNum 999)]),
                     (''maxLength'', JObj [(''type'', JStr ''integer''), (''minimum'', JNum 1), (''maximum'', JNum 1000)])]
                    commonFieldAttributes)),
                 (''additionalProperties'', JBool False),
                 (''required'', JArr [JStr ''fieldType'', JStr ''name'', JStr ''label'', JStr ''description'', JStr ''required'', JStr ''disabled'', JStr ''minLength'', JStr ''maxLength''])],
               JObj
                [(''properties'', JObj (objectAssign
                    [(''fieldType'', JObj [(''type'', JStr ''string''), (''pattern'', JStr ''^LIST$'')]),
                     (''minLength'', JObj [(''type'', JStr ''integer''), (''minimum'', JNum 0), (''maximum'', JNum 999)]),
                     (''maxLength'', JObj [(''type'', JStr ''integer''), (''minimum'', JNum 1), (''maximum'', JNum 1000)])]
                    commonFieldAttributes)),
                 (''additionalProperties'', JBool False),
                 (''required'', JArr [JStr ''fieldType'', JStr ''name'', JStr ''label'', JStr ''description'', JStr ''required'', JStr ''disabled'', JStr ''minLength'', JStr ''maxLength''])]
                 ])])]),
         (''createdAt'', JObj [(''type'', JStr ''string''), (''format'', JStr ''date-time'')]),
         (''modifiedAt'', JObj [(''type'', JStr ''string''), (''format'', JStr ''date-time'')])]),
      (''required'', JArr [JStr ''name'', JStr ''projectId'', JStr ''userId''])]"

text \<open>The shapes of the \<open>oneOf\<close> under \<open>properties.fields.items\<close>, and what each declares.\<close>

definition fieldShapes :: "jsval list" where
  "fieldShapes =
     (case attributeOf (attributeOf (attributeOf (attributeOf jsonSchema ''properties'') ''fields'')
             ''items'') ''oneOf'' of
        JArr shapes \<Rightarrow> shapes
      | _ \<Rightarrow> [])"

definition shapePattern :: "jsval \<Rightarrow> jsval" where
  "shapePattern shape = attributeOf (attributeOf (attributeOf shape ''properties'') ''fieldType'') ''pattern''"

definition shapeProperties :: "jsval \<Rightarrow> string list" where
  "shapeProperties shape = (case attributeOf shape ''properties'' of JObj kvs \<Rightarrow> map fst kvs | _ \<Rightarrow> [])"

definition shapeRequired :: "jsval \<Rightarrow> jsval" where
  "shapeRequired shape = attributeOf shape ''required''"

section \<open>Validating a content record\<close>

text \<open>
  A field definition of a stored content type, with the attributes \<open>validateEntryFields\<close>
  reads. The stored definition has passed the schema document, so the tag and the name
  are strings and \<open>required\<close> and \<open>disabled\<close> are booleans; a kind-specific attribute the
  field does not have is \<open>JUndefined\<close>.
\<close>

record field_def =
  fieldType :: string
  name :: string
  required :: bool
  disabled :: bool
  format :: jsval
  minLength :: jsval
  maxLength :: jsval
  minValue :: jsval
  maxValue :: jsval
  choices :: jsval

text \<open>The body of the loop: the \<open>fieldConstraints\<close> object of one field, in key order.\<close>

definition fieldConstraints :: "field_def \<Rightarrow> jsval \<Rightarrow> rule list" where
  "fieldConstraints field projectId =
     (if required field then [Presence None] else []) @
     (if fieldType field = ''TEXT'' then
        (if format field = JStr ''uri'' then [Url]
         else if format field = JStr ''email'' then [Email]
         else [])
      else if fieldType field = ''TEXT'' \<or> fieldType field = ''LONGTEXT'' then
        [Length (minLength field) (maxLength field)]
      else if fieldType field = ''DATE'' then
        (if format field = JStr ''datetime'' then [Datetime]
         else if format field = JStr ''date'' then [Date]
         else [])
      else if fieldType field = ''BOOLEAN'' then [Boolean]
      else if fieldType field = ''NUMBER'' then
        [Numericality (minValue field) (maxValue field) (format field = JStr ''integer'')]
      else if fieldType field = ''CHOICE'' then
        [ChoicesUnion (choices field)] @
        (if format field = JStr ''single'' then [ArrayLength (JNum 1) JUndefined JUndefined]
         else if format field = JStr ''multiple'' then
           [ArrayLength JUndefined (JNum 1) JUndefined, UniqueArray]
         else [])
      else if fieldType field = ''COLOR'' then
        (if format field = JStr ''rgb'' then [Format (HashHexDigits 6)]
         else if format field = JStr ''rgba'' then [Format (HashHexDigits 8)]
         else [])
      else if fieldType field = ''MEDIA'' then
        [Media projectId, ArrayLength JUndefined (minLength field) (maxLength field)]
      else if fieldType field = ''LINK'' then
        [Entries projectId, ArrayLength JUndefined (minLength field) (maxLength field)]
      else if fieldType field = ''LIST'' then
        [ArrayOfStrings, ArrayLength JUndefined (minLength field) (maxLength field)]
      else [])"

text \<open>
  The loop: \<open>constraints[field.name] = fieldConstraints\<close> for every field not disabled.
  The rules of a field named \<open>__proto__\<close> become the prototype of \<open>constraints\<close> and not
  an entry of it.
\<close>

definition entryConstraints :: "field_def list \<Rightarrow> jsval \<Rightarrow> constraints" where
  "entryConstraints this_fields projectId =
     foldl (\<lambda>constraints field.
              if disabled field then constraints
              else setProperty (name field) (fieldConstraints field projectId) constraints)
       [] this_fields"

text \<open>
  A field name that validate.js takes as it is written: one that is no key an object
  inherits and holds neither a dot nor a backslash. For a field with such a name the
  library reads the submitted value under the name and reports under the name. With an
  inherited name among the fields that are not disabled the runtime reads inherited
  properties, of the record, of the constraint object or of the object that collects
  the reports; the model does not follow it there.
\<close>

definition ordinaryKey :: "string \<Rightarrow> bool" where
  "ordinaryKey k = (k \<notin> set inheritedKeys \<and> CHR ''.'' \<notin> set k \<and> CHR 0x5C \<notin> set k)"

text \<open>
  \<open>validateEntryFields(fields, projectId)\<close> on a content type whose \<open>fields\<close> are
  \<open>this_fields\<close>; the argument \<open>fields\<close>, the submitted record, is \<open>entryFields\<close> here.
  The model is the code on the definitions whose fields that are not disabled have
  ordinary names.
\<close>

definition validateEntryFields :: "collab \<Rightarrow> field_def list \<Rightarrow> jsobj \<Rightarrow> jsval \<Rightarrow> violations" where
  "validateEntryFields c this_fields entryFields projectId =
     validate_async c (JObj entryFields) (entryConstraints this_fields projectId)"


section \<open>Example inputs\<close>

text \<open>Collaborators that accept nothing and find nothing.\<close>

definition emptyCollab :: collab where
  "emptyCollab =
    \<lparr>toNumber = (\<lambda>s. None), numberToString = (\<lambda>q. []),
     lessThanOtherwise = (\<lambda>v w. False), isUrl = (\<lambda>s. False), isEmail = (\<lambda>s. False),
     parse = (\<lambda>v. None), mediaExistsInProject = (\<lambda>ids projectId. False),
     entriesExistInProject = (\<lambda>ids projectId. False)\<rparr>"

text \<open>A definition with valid top-level attributes and the given fields.\<close>

definition articleWith :: "jsval list \<Rightarrow> jsobj" where
  "articleWith fs =
    [(''name'', JStr ''Article''), (''projectId'', JNum 1), (''userId'', JNum 1),
     (''fields'', JArr fs)]"

text \<open>A stored field definition of the given kind and name with nothing else set.\<close>

definition fieldOf :: "string \<Rightarrow> string \<Rightarrow> field_def" where
  "fieldOf kind n =
    \<lparr>fieldType = kind, name = n, required = False, disabled = False, format = JUndefined,
     minLength = JUndefined, maxLength = JUndefined, minValue = JUndefined,
     maxValue = JUndefined, choices = JUndefined\<rparr>"

text \<open>A plain TEXT field \<open>title\<close> of one to five characters.\<close>

definition titleField :: field_def where
  "titleField =
    (fieldOf ''TEXT'' ''title'')\<lparr>format := JStr ''plaintext'', minLength := JNum 1, maxLength := JNum 5\<rparr>"

text \<open>The definition of the spec's example: a required BOOLEAN and an optional NUMBER.\<close>

definition publishedField :: field_def where
  "publishedField = (fieldOf ''BOOLEAN'' ''published'')\<lparr>required := True\<rparr>"

definition ratingField :: field_def where
  "ratingField =
    (fieldOf ''NUMBER'' ''rating'')\<lparr>format := JStr ''integer'', minValue := JNum 0, maxValue := JNum 5\<rparr>"

text \<open>A CHOICE field \<open>size\<close> with one value out of three.\<close>

definition sizeField :: field_def where
  "sizeField =
    (fieldOf ''CHOICE'' ''size'')\<lparr>format := JStr ''single'',
      choices := JArr [JStr ''a'', JStr ''b'', JStr ''c'']\<rparr>"

text \<open>A NUMBER field object with every attribute but the two bounds.\<close>

definition ratingWithoutBounds :: jsobj where
  "ratingWithoutBounds =
    [(''fieldType'', JStr ''NUMBER''), (''name'', JStr ''rating''), (''label'', JStr ''Rating''),
     (''description'', JStr []), (''required'', JBool False), (''disabled'', JBool False),
     (''format'', JStr ''number'')]"

text \<open>A TEXT field object with every attribute, its bounds in the wrong order.\<close>

definition textWithBounds :: "string \<Rightarrow> rat \<Rightarrow> rat \<Rightarrow> jsobj" where
  "textWithBounds n lo hi =
    [(''fieldType'', JStr ''TEXT''), (''name'', JStr n), (''label'', JStr ''Body''),
     (''description'', JStr []), (''required'', JBool False), (''disabled'', JBool False),
     (''minLength'', JNum lo), (''maxLength'', JNum hi), (''format'', JStr ''plaintext'')]"

text \<open>Collaborators as \<open>emptyCollab\<close>, whose \<open>lessThanAttribute\<close> reports whatever is no pair of numbers.\<close>

definition strictCollab :: collab where
  "strictCollab = emptyCollab\<lparr>lessThanOtherwise := (\<lambda>v w. True)\<rparr>"

section \<open>Facts about the helper functions\<close>

lemma strictEquals_imp_eq: "strictEquals a b \<Longrightarrow> a = b"
  by (cases a) auto

lemma strictEquals_JStr_right [simp]: "strictEquals a (JStr s) = (a = JStr s)"
  by (cases a) auto

lemma length_uniqInto_le: "length (uniqInto seen xs) \<le> length seen + length xs"
proof (induction xs arbitrary: seen)
  case Nil
  show ?case by simp
next
  case (Cons x xs)
  have "length (uniqInto seen xs) \<le> length seen + length xs"
    and "length (uniqInto (seen @ [x]) xs) \<le> length (seen @ [x]) + length xs"
    using Cons.IH by blast+
  then show ?case by simp
qed

text \<open>A value equal to one already kept is dropped, so the result is shorter.\<close>

lemma uniqInto_seen_lt:
  "x \<in> set xs \<Longrightarrow> s \<in> set seen \<Longrightarrow> strictEquals s x
    \<Longrightarrow> length (uniqInto seen xs) < length seen + length xs"
proof (induction xs arbitrary: seen)
  case Nil
  then show ?case by simp
next
  case (Cons y ys)
  show ?case
  proof (cases "list_ex (\<lambda>s. strictEquals s y) seen")
    case True
    have "length (uniqInto seen ys) \<le> length seen + length ys"
      by (rule length_uniqInto_le)
    with True show ?thesis by simp
  next
    case False
    with Cons.prems have "x \<noteq> y" by (auto simp: list_ex_iff)
    with Cons.prems have "x \<in> set ys" by simp
    moreover from Cons.prems have "s \<in> set (seen @ [y])" by simp
    ultimately have "length (uniqInto (seen @ [y]) ys) < length (seen @ [y]) + length ys"
      using Cons.IH Cons.prems(3) by blast
    with False show ?thesis by simp
  qed
qed

lemma uniqInto_dup_lt:
  "i < j \<Longrightarrow> j < length xs \<Longrightarrow> strictEquals (xs ! i) (xs ! j)
    \<Longrightarrow> length (uniqInto seen xs) < length seen + length xs"
proof (induction xs arbitrary: seen i j)
  case Nil
  then show ?case by simp
next
  case (Cons y ys)
  show ?case
  proof (cases "list_ex (\<lambda>s. strictEquals s y) seen")
    case True
    have "length (uniqInto seen ys) \<le> length seen + length ys"
      by (rule length_uniqInto_le)
    with True show ?thesis by simp
  next
    case False
    have "length (uniqInto (seen @ [y]) ys) < length (seen @ [y]) + length ys"
    proof (cases i)
      case 0
      with Cons.prems obtain j' where j': "j = Suc j'" "j' < length ys"
        by (cases j) auto
      with 0 Cons.prems have "strictEquals y (ys ! j')" by simp
      moreover have "ys ! j' \<in> set ys" using j' by simp
      moreover have "y \<in> set (seen @ [y])" by simp
      ultimately show ?thesis by (rule uniqInto_seen_lt[rotated 2])
    next
      case (Suc i')
      with Cons.prems obtain j' where j': "j = Suc j'" "i' < j'" "j' < length ys"
        by (cases j) auto
      with Suc Cons.prems have "strictEquals (ys ! i') (ys ! j')" by simp
      with j' show ?thesis using Cons.IH by blast
    qed
    with False show ?thesis by simp
  qed
qed

lemma uniq_dup_length:
  "i < j \<Longrightarrow> j < length xs \<Longrightarrow> strictEquals (xs ! i) (xs ! j) \<Longrightarrow> length (uniq xs) \<noteq> length xs"
  using uniqInto_dup_lt[of i j xs "[]"] by (simp add: uniq_def)

lemma uniqInto_distinct:
  "distinct xs \<Longrightarrow> set xs \<inter> set seen = {} \<Longrightarrow> uniqInto seen xs = seen @ xs"
proof (induction xs arbitrary: seen)
  case Nil
  show ?case by simp
next
  case (Cons y ys)
  have "\<not> list_ex (\<lambda>s. strictEquals s y) seen"
    using Cons.prems(2) by (auto simp: list_ex_iff dest: strictEquals_imp_eq)
  moreover have "uniqInto (seen @ [y]) ys = (seen @ [y]) @ ys"
    using Cons.prems by (intro Cons.IH) auto
  ultimately show ?case by simp
qed

lemma uniq_distinct: "distinct xs \<Longrightarrow> uniq xs = xs"
  by (simp add: uniq_def uniqInto_distinct)

lemma fieldNamesOf_objects:
  "fieldNamesOf (map JObj fs) = Inr (map (\<lambda>f. jsGet f ''name'') fs)"
  by (induction fs) simp_all

lemma fieldTypes_eq:
  "fieldTypes = [''TEXT'', ''LONGTEXT'', ''BOOLEAN'', ''NUMBER'', ''DATE'', ''CHOICE'', ''COLOR'',
     ''MEDIA'', ''LINK'', ''LIST'']"
  by (simp add: fieldTypes_def fieldTypeConstraints_def)

text \<open>A key without dot and backslash is a key path of one key.\<close>

lemma keypathFrom_plain:
  "CHR ''.'' \<notin> set k \<Longrightarrow> CHR 0x5C \<notin> set k \<Longrightarrow> keypathFrom key escape k = [key @ k]"
  by (induction k arbitrary: key escape) auto

lemma getDeepObjectValue_plain:
  "CHR ''.'' \<notin> set k \<Longrightarrow> CHR 0x5C \<notin> set k \<Longrightarrow> getDeepObjectValue (JObj kvs) k = jsGet kvs k"
  by (simp add: getDeepObjectValue_def keypathFrom_plain)

lemma map_of_setProperty:
  "map_of (setProperty k v obj) = (if k = ''__proto__'' then map_of obj else (map_of obj)(k \<mapsto> v))"
  by (simp add: setProperty_def update_conv')

lemma keys_setProperty:
  "fst ` set (setProperty k v obj) = (if k = ''__proto__'' then fst ` set obj else insert k (fst ` set obj))"
  by (simp add: setProperty_def dom_update)

lemma distinct_setProperty:
  "distinct (map fst obj) \<Longrightarrow> distinct (map fst (setProperty k v obj))"
  by (simp add: setProperty_def distinct_update)

lemma articleWith_top_level: "validate c (JObj (articleWith fs)) entryTypeConstraints = []"
  by (simp add: articleWith_def validate_def entryTypeConstraints_def checkAttribute_def
      getDeepObjectValue_plain jsGet_def presence_def length_rule_def numericality_def
      numberChecks_def isDefined_def isInteger_def isSpace_def)

lemma articleWith_fields: "jsGet (articleWith fs) ''fields'' = JArr fs"
  by (simp add: articleWith_def jsGet_def)

text \<open>The inclusion rule on the tag reports exactly a tag that is present and not known.\<close>

lemma validate_single_inclusion:
  "validate_single c t [Inclusion (map JStr ks)] \<noteq> [] \<longleftrightarrow> isDefined t \<and> t \<notin> set (map JStr ks)"
  by (auto simp: validate_single_def inclusion_def list_ex_iff)

text \<open>The loop stops at the first field whose tag the inclusion rule reports.\<close>

lemma forEachField_first_unknown:
  assumes "\<forall>g \<in> set pre. \<not> isDefined (jsGet g ''fieldType'')
              \<or> jsGet g ''fieldType'' \<in> set (map JStr fieldTypes)"
    and "isDefined (jsGet f ''fieldType'')"
    and "jsGet f ''fieldType'' \<notin> set (map JStr fieldTypes)"
  shows "forEachField c (map JObj (pre @ f # post)) acc = Inl (InvalidFieldType (jsGet f ''fieldType''))"
  using assms(1)
proof (induction pre arbitrary: acc)
  case Nil
  have "validate_single c (jsGet f ''fieldType'') [Inclusion (map JStr fieldTypes)] \<noteq> []"
    using assms(2,3) by (simp only: validate_single_inclusion simp_thms)
  then show ?case by simp
next
  case (Cons h hs)
  have "\<not> (isDefined (jsGet h ''fieldType'') \<and> jsGet h ''fieldType'' \<notin> set (map JStr fieldTypes))"
    using Cons.prems by auto
  then have accepted: "validate_single c (jsGet h ''fieldType'') [Inclusion (map JStr fieldTypes)] = []"
    using validate_single_inclusion[of c "jsGet h ''fieldType''" fieldTypes] by blast
  have later: "\<And>acc'. forEachField c (map JObj (hs @ f # post)) acc'
      = Inl (InvalidFieldType (jsGet f ''fieldType''))"
    using Cons.IH Cons.prems by simp
  show ?case
    using accepted later by simp
qed

lemma validate_keys: "fst ` set (validate c a cs) \<subseteq> fst ` set cs"
  by (force simp: validate_def checkAttribute_def)

text \<open>The report of one attribute: all the violations of its rules, when there is one.\<close>

lemma validate_map_of:
  assumes "distinct (map fst cs)"
  shows "map_of (validate c a cs) k =
    (case map_of cs k of
       None \<Rightarrow> None
     | Some rules \<Rightarrow>
         if concat (map (checkRule c a (getDeepObjectValue a k)) rules) = [] then None
         else Some (concat (map (checkRule c a (getDeepObjectValue a k)) rules)))"
  using assms
proof (induction cs)
  case Nil
  show ?case by (simp add: validate_def)
next
  case (Cons p ps)
  obtain k' rules where p: "p = (k', rules)" by (cases p)
  let ?vs = "concat (map (checkRule c a (getDeepObjectValue a k')) rules)"
  have tail: "validate c a (p # ps) = (if ?vs \<noteq> [] then [(k', ?vs)] else []) @ validate c a ps"
    by (simp add: validate_def checkAttribute_def p)
  show ?case
  proof (cases "k' = k")
    case True
    then have "k \<notin> fst ` set ps" using Cons.prems p by auto
    then have "k \<notin> fst ` set (validate c a ps)" using validate_keys by blast
    then have "map_of (validate c a ps) k = None" by (simp add: map_of_eq_None_iff)
    with True show ?thesis
      unfolding tail by (simp add: p)
  next
    case False
    have "map_of (validate c a (p # ps)) k = map_of (validate c a ps) k"
      unfolding tail using False by simp
    with False Cons show ?thesis by (simp add: p)
  qed
qed

text \<open>When every tag is known the loop runs to its end and folds \<open>fieldStep\<close>.\<close>

lemma forEachField_known:
  assumes "\<forall>g \<in> set fs. jsGet g ''fieldType'' \<in> set (map JStr fieldTypes)"
  shows "forEachField c (map JObj fs) acc = Inr (foldl (fieldStep c) acc fs)"
  using assms
proof (induction fs arbitrary: acc)
  case Nil
  show ?case by simp
next
  case (Cons h hs)
  have "validate_single c (jsGet h ''fieldType'') [Inclusion (map JStr fieldTypes)] = []"
    using Cons.prems validate_single_inclusion[of c "jsGet h ''fieldType''" fieldTypes] by auto
  moreover have "\<And>acc'. forEachField c (map JObj hs) acc' = Inr (foldl (fieldStep c) acc' hs)"
    using Cons.IH Cons.prems by simp
  ultimately show ?case by (simp add: fieldStep_def[of c acc h])
qed

lemma foldl_fieldStep_other:
  "k \<notin> (\<lambda>g. propertyKey c (jsGet g ''name'')) ` set fs
     \<Longrightarrow> map_of (foldl (fieldStep c) acc fs) k = map_of acc k"
  by (induction fs arbitrary: acc) (auto simp: fieldStep_def map_of_setProperty)

lemma foldl_fieldStep_entry:
  assumes "distinct (map (\<lambda>g. propertyKey c (jsGet g ''name'')) fs)" and "f \<in> set fs"
    and "validate c (JObj f) (constraintsFor (jsGet f ''fieldType'')) \<noteq> []"
    and "propertyKey c (jsGet f ''name'') \<noteq> ''__proto__''"
  shows "map_of (foldl (fieldStep c) acc fs) (propertyKey c (jsGet f ''name'')) =
           Some (validate c (JObj f) (constraintsFor (jsGet f ''fieldType'')))"
  using assms(1,2)
proof (induction fs arbitrary: acc)
  case Nil
  then show ?case by simp
next
  case (Cons h hs)
  show ?case
  proof (cases "f = h")
    case True
    then have "propertyKey c (jsGet f ''name'') \<notin> (\<lambda>g. propertyKey c (jsGet g ''name'')) ` set hs"
      using Cons.prems by auto
    then have "map_of (foldl (fieldStep c) (fieldStep c acc h) hs) (propertyKey c (jsGet f ''name''))
        = map_of (fieldStep c acc h) (propertyKey c (jsGet f ''name''))"
      by (rule foldl_fieldStep_other)
    with True assms(3,4) show ?thesis
      by (simp add: fieldStep_def[of c acc h] map_of_setProperty)
  next
    case False
    with Cons show ?thesis by simp
  qed
qed

text \<open>Whatever a field named \<open>__proto__\<close> is reported for leaves \<open>fieldErrors\<close> as it is.\<close>

lemma fieldStep_proto:
  "jsGet f ''name'' = JStr ''__proto__'' \<Longrightarrow> fieldStep c acc f = acc"
  by (simp add: fieldStep_def setProperty_def)

lemma lessThan_reported:
  assumes "distinct (map fst cs)" and "map_of cs lo = Some rules"
    and "LessThanAttribute hi \<in> set rules"
    and "getDeepObjectValue (JObj f) lo = JNum a" and "jsGet f hi = JNum b" and "\<not> a < b"
  shows "\<exists>ws. map_of (validate c (JObj f) cs) lo = Some ws \<and> MustBeLessThanAttribute hi \<in> set ws"
proof -
  let ?ws = "concat (map (checkRule c (JObj f) (getDeepObjectValue (JObj f) lo)) rules)"
  have "checkRule c (JObj f) (JNum a) (LessThanAttribute hi) = [MustBeLessThanAttribute hi]"
    using assms(5,6) by (simp add: lessThanAttribute_def isDefined_def)
  then have "MustBeLessThanAttribute hi
      \<in> set (checkRule c (JObj f) (getDeepObjectValue (JObj f) lo) (LessThanAttribute hi))"
    using assms(4) by simp
  with assms(3) have mem: "MustBeLessThanAttribute hi \<in> set ?ws"
    unfolding set_concat set_map by blast
  then have "?ws \<noteq> []" by (metis empty_iff list.set(1))
  then have "map_of (validate c (JObj f) cs) lo = Some ?ws"
    using assms(1,2) by (simp add: validate_map_of)
  with mem show ?thesis by blast
qed

text \<open>The merged constraint set of each kind: the common entries, then the kind's own.\<close>

lemma commonAssigned: "objectAssign [] commonFieldConstraints = commonFieldConstraints"
  by (simp add: objectAssign_def setProperty_def commonFieldConstraints_def)

lemma constraintsFor_TEXT:
  "constraintsFor (JStr ''TEXT'') = commonFieldConstraints @ textFieldConstraints"
  by (simp add: fieldTypeConstraints_def commonAssigned)
    (simp add: objectAssign_def setProperty_def commonFieldConstraints_def textFieldConstraints_def)

lemma constraintsFor_LONGTEXT:
  "constraintsFor (JStr ''LONGTEXT'') = commonFieldConstraints @ longTextFieldConstraints"
  by (simp add: fieldTypeConstraints_def commonAssigned)
    (simp add: objectAssign_def setProperty_def commonFieldConstraints_def longTextFieldConstraints_def)

lemma constraintsFor_NUMBER:
  "constraintsFor (JStr ''NUMBER'') = commonFieldConstraints @ numberFieldConstraints"
  by (simp add: fieldTypeConstraints_def commonAssigned)
    (simp add: objectAssign_def setProperty_def commonFieldConstraints_def numberFieldConstraints_def)

lemma constraintsFor_MEDIA:
  "constraintsFor (JStr ''MEDIA'') = commonFieldConstraints @ mediaFieldConstraints"
  by (simp add: fieldTypeConstraints_def commonAssigned)
    (simp add: objectAssign_def setProperty_def commonFieldConstraints_def mediaFieldConstraints_def)

lemma constraintsFor_LINK:
  "constraintsFor (JStr ''LINK'') = commonFieldConstraints @ linkFieldConstraints"
  by (simp add: fieldTypeConstraints_def commonAssigned)
    (simp add: objectAssign_def setProperty_def commonFieldConstraints_def linkFieldConstraints_def)

lemma constraintsFor_LIST:
  "constraintsFor (JStr ''LIST'') = commonFieldConstraints @ listFieldConstraints"
  by (simp add: fieldTypeConstraints_def commonAssigned)
    (simp add: objectAssign_def setProperty_def commonFieldConstraints_def listFieldConstraints_def)

lemma ordering_rule_of_kind:
  assumes "(kind, lo, hi) \<in>
      {(''TEXT'', ''minLength'', ''maxLength''), (''LONGTEXT'', ''minLength'', ''maxLength''),
       (''MEDIA'', ''minLength'', ''maxLength''), (''LINK'', ''minLength'', ''maxLength''),
       (''LIST'', ''minLength'', ''maxLength''), (''NUMBER'', ''minValue'', ''maxValue'')}"
  shows "distinct (map fst (constraintsFor (JStr kind)))
     \<and> (\<exists>rules. map_of (constraintsFor (JStr kind)) lo = Some rules
           \<and> LessThanAttribute hi \<in> set rules)"
proof -
  from assms have
    "(kind = ''TEXT'' \<and> lo = ''minLength'' \<and> hi = ''maxLength'')
     \<or> (kind = ''LONGTEXT'' \<and> lo = ''minLength'' \<and> hi = ''maxLength'')
     \<or> (kind = ''MEDIA'' \<and> lo = ''minLength'' \<and> hi = ''maxLength'')
     \<or> (kind = ''LINK'' \<and> lo = ''minLength'' \<and> hi = ''maxLength'')
     \<or> (kind = ''LIST'' \<and> lo = ''minLength'' \<and> hi = ''maxLength'')
     \<or> (kind = ''NUMBER'' \<and> lo = ''minValue'' \<and> hi = ''maxValue'')"
    by (simp only: insert_iff empty_iff prod.inject simp_thms)
  then show ?thesis
  proof (elim disjE conjE)
    assume "kind = ''TEXT''" "lo = ''minLength''" "hi = ''maxLength''"
    then show ?thesis
      by (simp only: constraintsFor_TEXT)
        (simp add: commonFieldConstraints_def textFieldConstraints_def)
  next
    assume "kind = ''LONGTEXT''" "lo = ''minLength''" "hi = ''maxLength''"
    then show ?thesis
      by (simp only: constraintsFor_LONGTEXT)
        (simp add: commonFieldConstraints_def longTextFieldConstraints_def)
  next
    assume "kind = ''MEDIA''" "lo = ''minLength''" "hi = ''maxLength''"
    then show ?thesis
      by (simp only: constraintsFor_MEDIA)
        (simp add: commonFieldConstraints_def mediaFieldConstraints_def)
  next
    assume "kind = ''LINK''" "lo = ''minLength''" "hi = ''maxLength''"
    then show ?thesis
      by (simp only: constraintsFor_LINK)
        (simp add: commonFieldConstraints_def linkFieldConstraints_def)
  next
    assume "kind = ''LIST''" "lo = ''minLength''" "hi = ''maxLength''"
    then show ?thesis
      by (simp only: constraintsFor_LIST)
        (simp add: commonFieldConstraints_def listFieldConstraints_def)
  next
    assume "kind = ''NUMBER''" "lo = ''minValue''" "hi = ''maxValue''"
    then show ?thesis
      by (simp only: constraintsFor_NUMBER)
        (simp add: commonFieldConstraints_def numberFieldConstraints_def)
  qed
qed

text \<open>Past the top-level check and the test of unique names, the outcome is that of the loop.\<close>

lemma beforeValidate_loop:
  assumes "validate c (JObj json) entryTypeConstraints = []"
    and "jsGet json ''fields'' = JArr (map JObj fs)"
    and "length (uniq (map (\<lambda>g. jsGet g ''name'') fs)) = length fs"
  shows "beforeValidate c schema json =
    (case forEachField c (map JObj fs) [] of
       Inl e \<Rightarrow> Inl e
     | Inr fieldErrors \<Rightarrow>
         if fieldErrors \<noteq> [] then Inl (ValidationFieldErrors fieldErrors) else Inr schema)"
  using assms by (simp add: beforeValidate_def fieldNamesOf_objects)

lemma distinct_map_outer: "distinct (map (\<lambda>x. h (g x)) xs) \<Longrightarrow> distinct (map g xs)"
  by (induction xs) auto

section \<open>The definition validator: field names and field kinds\<close>

text \<open>
  Claim C3, as amended. For a definition whose top-level attributes pass the first check
  of \<open>$beforeValidate\<close> and whose \<open>fields\<close> is an array of field objects, two fields with
  the same name (a string, compared as it is written) make \<open>$beforeValidate\<close> throw
  \<open>ValidationError("Field names must be unique")\<close>. Nothing is assumed of the fields'
  kinds or of their other attributes: the test runs before the loop over the fields, so
  before the test of the kind and before every per-field check.
\<close>

theorem duplicate_field_names_rejected:
  assumes "validate c (JObj json) entryTypeConstraints = []"
    and "jsGet json ''fields'' = JArr (map JObj fs)"
    and "i < j" and "j < length fs"
    and "jsGet (fs ! i) ''name'' = JStr n" and "jsGet (fs ! j) ''name'' = JStr n"
  shows "beforeValidate c schema json = Inl (ValidationMessage ''Field names must be unique'')"
proof -
  let ?names = "map (\<lambda>f. jsGet f ''name'') fs"
  have "length (uniq ?names) \<noteq> length ?names"
    by (rule uniq_dup_length[of i j]) (use assms(3-6) in simp_all)
  then have "length ?names \<noteq> length (uniq ?names)" by simp
  then show ?thesis
    using assms(1,2) by (simp add: beforeValidate_def fieldNamesOf_objects del: length_map)
qed

text \<open>
  The theorem at a definition with two fields named \<open>title\<close>, the first of an unknown
  kind: the duplicate is what is reported.
\<close>

theorem duplicate_field_names_rejected_witness:
  "beforeValidate emptyCollab ()
      (articleWith [JObj [(''name'', JStr ''title''), (''fieldType'', JStr ''BOGUS'')],
                    JObj [(''name'', JStr ''title''), (''fieldType'', JStr ''DATE'')]])
    = Inl (ValidationMessage ''Field names must be unique'')"
  using duplicate_field_names_rejected[where c = emptyCollab and i = 0 and j = 1
      and n = "''title''" and schema = "()"
      and json = "articleWith [JObj [(''name'', JStr ''title''), (''fieldType'', JStr ''BOGUS'')],
                  JObj [(''name'', JStr ''title''), (''fieldType'', JStr ''DATE'')]]"
      and fs = "[[(''name'', JStr ''title''), (''fieldType'', JStr ''BOGUS'')],
                 [(''name'', JStr ''title''), (''fieldType'', JStr ''DATE'')]]"]
  by (simp add: articleWith_top_level articleWith_fields) (simp add: jsGet_def)

text \<open>
  Claim C3 as it is stated, for every definition with two fields of the same name, fails
  where the top-level check fails first: a definition without a name and with two fields
  named \<open>title\<close> is rejected with the report of the top-level attributes.
\<close>

theorem duplicate_field_names_counterexample:
  "beforeValidate emptyCollab ()
      [(''projectId'', JNum 1), (''userId'', JNum 1),
       (''fields'', JArr [JObj [(''name'', JStr ''title'')], JObj [(''name'', JStr ''title'')]])]
    = Inl (ValidationErrors [(''name'', [CantBeBlank])])
  \<and> Inl (ValidationErrors [(''name'', [CantBeBlank])])
    \<noteq> (Inl (ValidationMessage ''Field names must be unique'') :: error + unit)"
  by (simp add: beforeValidate_def validate_def entryTypeConstraints_def checkAttribute_def
      getDeepObjectValue_plain jsGet_def presence_def length_rule_def numericality_def numberChecks_def isDefined_def
      isInteger_def)

text \<open>
  Claim C4, as amended. Take a definition that passes the top-level check, whose \<open>fields\<close>
  is an array of field objects that passes the test of unique names. If one of the fields
  carries a \<open>fieldType\<close> that is present and is not one of the ten known tags, and every
  field before it carries a known tag or none, so that it is the first such field, then
  \<open>$beforeValidate\<close> throws the \<open>ValidationError\<close> that names the tag of that field: it
  does not return, it does not throw the error that carries the per-field reports, and
  whatever the fields after it carry is never looked at.
\<close>

theorem unknown_field_type_fails_fast:
  assumes "validate c (JObj json) entryTypeConstraints = []"
    and "jsGet json ''fields'' = JArr (map JObj (pre @ f # post))"
    and "length (uniq (map (\<lambda>g. jsGet g ''name'') (pre @ f # post))) = length (pre @ f # post)"
    and "\<forall>g \<in> set pre. \<not> isDefined (jsGet g ''fieldType'')
            \<or> jsGet g ''fieldType'' \<in> set (map JStr fieldTypes)"
    and "isDefined (jsGet f ''fieldType'')"
    and "jsGet f ''fieldType'' \<notin> set (map JStr fieldTypes)"
  shows "beforeValidate c schema json = Inl (InvalidFieldType (jsGet f ''fieldType''))"
proof -
  have "forEachField c (map JObj (pre @ f # post)) [] = Inl (InvalidFieldType (jsGet f ''fieldType''))"
    using assms(4-6) by (rule forEachField_first_unknown)
  then show ?thesis
    unfolding beforeValidate_loop[OF assms(1-3)] by simp
qed

text \<open>
  The theorem at a definition of three fields: a \<open>DATE\<close> without a format, then the tag
  \<open>BOGUS\<close>, then the tag \<open>WRONG\<close>. The tag named is that of the first of the two unknown
  ones, and the report on the first field is never returned.
\<close>

theorem unknown_field_type_fails_fast_witness:
  "beforeValidate emptyCollab ()
      (articleWith [JObj [(''name'', JStr ''when''), (''fieldType'', JStr ''DATE'')],
                    JObj [(''name'', JStr ''title''), (''fieldType'', JStr ''BOGUS'')],
                    JObj [(''name'', JStr ''other''), (''fieldType'', JStr ''WRONG'')]])
    = Inl (InvalidFieldType (JStr ''BOGUS''))"
proof -
  let ?d = "[(''name'', JStr ''when''), (''fieldType'', JStr ''DATE'')]"
  let ?f = "[(''name'', JStr ''title''), (''fieldType'', JStr ''BOGUS'')]"
  let ?g = "[(''name'', JStr ''other''), (''fieldType'', JStr ''WRONG'')]"
  have "beforeValidate emptyCollab () (articleWith (map JObj ([?d] @ ?f # [?g])))
      = Inl (InvalidFieldType (jsGet ?f ''fieldType''))"
    by (rule unknown_field_type_fails_fast[where f = ?f and pre = "[?d]" and post = "[?g]"])
      (simp_all add: articleWith_top_level articleWith_fields,
        simp_all add: jsGet_def isDefined_def fieldTypes_eq uniq_def)
  then show ?thesis
    by (simp add: jsGet_def)
qed

text \<open>
  Claim C4 as it is stated, for every definition with a field of an unknown kind, fails
  where an earlier check fails first: with a second field of the same name the error is
  the one of the unique-names test, which does not name the tag.
\<close>

theorem unknown_field_type_counterexample:
  "beforeValidate emptyCollab ()
      (articleWith [JObj [(''name'', JStr ''title''), (''fieldType'', JStr ''BOGUS'')],
                    JObj [(''name'', JStr ''title''), (''fieldType'', JStr ''TEXT'')]])
    = Inl (ValidationMessage ''Field names must be unique'')
  \<and> Inl (ValidationMessage ''Field names must be unique'')
    \<noteq> (Inl (InvalidFieldType (JStr ''BOGUS'')) :: error + unit)"
  by (simp add: beforeValidate_def articleWith_top_level articleWith_fields uniq_def)
    (simp add: jsGet_def)

section \<open>The definition validator: ordering of the bounds\<close>

text \<open>
  The ordering is an entry of the constraint set: for each of the six kinds the lower
  attribute carries a \<open>lessThanAttribute\<close> rule that names the upper one. Take a
  definition that reaches the accumulating pass and completes it: the top-level
  attributes pass, \<open>fields\<close> is an array of field objects whose names are pairwise
  different as property keys, and every field has a known tag. If a field whose name is
  not \<open>__proto__\<close> has numbers for its two bounds and the lower one is not strictly less
  than the upper one, then \<open>$beforeValidate\<close> throws the error that carries the per-field
  reports, and the report under that field's name holds the violation of the rule for
  the lower attribute.
\<close>

lemma ordering_violation_reported_under_own_key:
  assumes "validate c (JObj json) entryTypeConstraints = []"
    and "jsGet json ''fields'' = JArr (map JObj fs)"
    and "distinct (map (\<lambda>g. propertyKey c (jsGet g ''name'')) fs)"
    and "\<forall>g \<in> set fs. jsGet g ''fieldType'' \<in> set (map JStr fieldTypes)"
    and "f \<in> set fs" and "jsGet f ''fieldType'' = JStr kind"
    and "propertyKey c (jsGet f ''name'') \<noteq> ''__proto__''"
    and "(kind, lo, hi) \<in>
      {(''TEXT'', ''minLength'', ''maxLength''), (''LONGTEXT'', ''minLength'', ''maxLength''),
       (''MEDIA'', ''minLength'', ''maxLength''), (''LINK'', ''minLength'', ''maxLength''),
       (''LIST'', ''minLength'', ''maxLength''), (''NUMBER'', ''minValue'', ''maxValue'')}"
    and "jsGet f lo = JNum a" and "jsGet f hi = JNum b" and "\<not> a < b"
  shows "\<exists>fieldErrors vs ws.
           beforeValidate c schema json = Inl (ValidationFieldErrors fieldErrors)
         \<and> map_of fieldErrors (propertyKey c (jsGet f ''name'')) = Some vs
         \<and> map_of vs lo = Some ws \<and> MustBeLessThanAttribute hi \<in> set ws
         \<and> (\<exists>rules. map_of (constraintsFor (JStr kind)) lo = Some rules
               \<and> LessThanAttribute hi \<in> set rules)"
proof -
  let ?vs = "validate c (JObj f) (constraintsFor (jsGet f ''fieldType''))"
  let ?m = "foldl (fieldStep c) [] fs"
  from ordering_rule_of_kind[OF assms(8)] obtain rules where
    d: "distinct (map fst (constraintsFor (JStr kind)))"
    and r: "map_of (constraintsFor (JStr kind)) lo = Some rules" "LessThanAttribute hi \<in> set rules"
    by blast
  have "lo = ''minLength'' \<or> lo = ''minValue''"
    using assms(8) by (simp only: insert_iff empty_iff prod.inject simp_thms) (elim disjE conjE, simp_all)
  then have plain: "CHR ''.'' \<notin> set lo" "CHR 0x5C \<notin> set lo"
    by (elim disjE, simp, simp)+
  have lower: "getDeepObjectValue (JObj f) lo = JNum a"
    using assms(9) plain by (simp add: getDeepObjectValue_plain)
  from lessThan_reported[OF d r lower assms(10,11), of c] obtain ws where
    ws: "map_of ?vs lo = Some ws" "MustBeLessThanAttribute hi \<in> set ws"
    using assms(6) by auto
  then have ne: "?vs \<noteq> []" by auto
  have entry: "map_of ?m (propertyKey c (jsGet f ''name'')) = Some ?vs"
    using assms(3,5) ne assms(7) by (rule foldl_fieldStep_entry)
  then have "?m \<noteq> []" by auto
  moreover have "distinct (map (\<lambda>g. jsGet g ''name'') fs)"
    using assms(3) by (rule distinct_map_outer)
  ultimately have "beforeValidate c schema json = Inl (ValidationFieldErrors ?m)"
    using assms(1,2,4)
    by (simp add: beforeValidate_def fieldNamesOf_objects uniq_distinct forEachField_known)
  with entry ws r show ?thesis by blast
qed

text \<open>
  The per-field check of a TEXT field whose \<open>minLength\<close> is 10 and whose \<open>maxLength\<close> is 5,
  under the name \<open>__proto__\<close> and under the name \<open>body\<close>.
\<close>

lemma textWithBounds_proto_report:
  "validate c (JObj (textWithBounds ''__proto__'' 10 5)) (constraintsFor (JStr ''TEXT''))
    = [(''minLength'', [MustBeLessThanAttribute ''maxLength''])]"
  by (simp only: constraintsFor_TEXT)
    (simp add: textWithBounds_def commonFieldConstraints_def textFieldConstraints_def
      validate_def checkAttribute_def getDeepObjectValue_plain jsGet_def presence_def
      length_rule_def numericality_def numberChecks_def isDefined_def isInteger_def isSpace_def
      inclusion_def lessThanAttribute_def boolean_def)

lemma textWithBounds_body_report:
  "validate c (JObj (textWithBounds ''body'' 10 5)) (constraintsFor (JStr ''TEXT''))
    = [(''minLength'', [MustBeLessThanAttribute ''maxLength''])]"
  by (simp only: constraintsFor_TEXT)
    (simp add: textWithBounds_def commonFieldConstraints_def textFieldConstraints_def
      validate_def checkAttribute_def getDeepObjectValue_plain jsGet_def presence_def
      length_rule_def numericality_def numberChecks_def isDefined_def isInteger_def isSpace_def
      inclusion_def lessThanAttribute_def boolean_def)

lemma textWithBounds_loop:
  "beforeValidate c schema (articleWith [JObj (textWithBounds n lo hi)]) =
     (if fieldStep c [] (textWithBounds n lo hi) \<noteq> []
      then Inl (ValidationFieldErrors (fieldStep c [] (textWithBounds n lo hi)))
      else Inr schema)"
proof -
  let ?f = "textWithBounds n lo hi"
  have "forEachField c (map JObj [?f]) [] = Inr (foldl (fieldStep c) [] [?f])"
    by (rule forEachField_known) (simp add: textWithBounds_def jsGet_def fieldTypes_eq)
  moreover have "beforeValidate c schema (articleWith (map JObj [?f])) =
    (case forEachField c (map JObj [?f]) [] of
       Inl e \<Rightarrow> Inl e
     | Inr fieldErrors \<Rightarrow>
         if fieldErrors \<noteq> [] then Inl (ValidationFieldErrors fieldErrors) else Inr schema)"
    by (rule beforeValidate_loop) (simp_all add: articleWith_top_level articleWith_fields uniq_def)
  ultimately show ?thesis by simp
qed

text \<open>
  Claim C8, at a field named \<open>__proto__\<close>. The definition has one TEXT field with every
  attribute, a \<open>minLength\<close> of 10 and a \<open>maxLength\<close> of 5. The per-field check finds the
  violation of the ordering, and the assignment \<open>fieldErrors[field.name] = errors\<close> then
  gives \<open>fieldErrors\<close> no key: \<open>$beforeValidate\<close> returns and the definition is accepted.
  The same field under the name \<open>body\<close> is rejected with the report under its name.
\<close>

theorem ordering_violation_lost_at_proto:
  "validate c (JObj (textWithBounds ''__proto__'' 10 5)) (constraintsFor (JStr ''TEXT''))
     = [(''minLength'', [MustBeLessThanAttribute ''maxLength''])]
   \<and> beforeValidate c schema (articleWith [JObj (textWithBounds ''__proto__'' 10 5)]) = Inr schema
   \<and> beforeValidate c schema (articleWith [JObj (textWithBounds ''body'' 10 5)])
     = Inl (ValidationFieldErrors
         [(''body'', [(''minLength'', [MustBeLessThanAttribute ''maxLength''])])])"
proof (intro conjI)
  show "validate c (JObj (textWithBounds ''__proto__'' 10 5)) (constraintsFor (JStr ''TEXT''))
     = [(''minLength'', [MustBeLessThanAttribute ''maxLength''])]"
    by (rule textWithBounds_proto_report)
next
  have "fieldStep c [] (textWithBounds ''__proto__'' 10 5) = []"
    by (rule fieldStep_proto) (simp add: textWithBounds_def jsGet_def)
  then show "beforeValidate c schema (articleWith [JObj (textWithBounds ''__proto__'' 10 5)])
      = Inr schema"
    by (simp only: textWithBounds_loop) simp
next
  have tag: "jsGet (textWithBounds ''body'' 10 5) ''fieldType'' = JStr ''TEXT''"
    and name: "jsGet (textWithBounds ''body'' 10 5) ''name'' = JStr ''body''"
    by (simp_all add: textWithBounds_def jsGet_def)
  have "fieldStep c [] (textWithBounds ''body'' 10 5)
      = [(''body'', [(''minLength'', [MustBeLessThanAttribute ''maxLength''])])]"
    unfolding fieldStep_def tag name textWithBounds_body_report
    by (simp add: setProperty_def)
  then show "beforeValidate c schema (articleWith [JObj (textWithBounds ''body'' 10 5)])
     = Inl (ValidationFieldErrors
         [(''body'', [(''minLength'', [MustBeLessThanAttribute ''maxLength''])])])"
    by (simp only: textWithBounds_loop) simp
qed

section \<open>The value validator\<close>

lemma entryConstraints_snoc:
  "entryConstraints (fs @ [g]) p =
     (if disabled g then entryConstraints fs p
      else setProperty (name g) (fieldConstraints g p) (entryConstraints fs p))"
  by (simp add: entryConstraints_def)

text \<open>
  The keys of the compiled map are the names of the fields that are not disabled, but for
  the name \<open>__proto__\<close>; no key comes twice.
\<close>

lemma entryConstraints_keys:
  "fst ` set (entryConstraints fs p)
    = name ` {g \<in> set fs. \<not> disabled g \<and> name g \<noteq> ''__proto__''}"
proof (induction fs rule: rev_induct)
  case Nil
  show ?case by (simp add: entryConstraints_def)
next
  case (snoc g fs)
  then show ?case by (auto simp: entryConstraints_snoc keys_setProperty)
qed

lemma entryConstraints_distinct: "distinct (map fst (entryConstraints fs p))"
proof (induction fs rule: rev_induct)
  case Nil
  show ?case by (simp add: entryConstraints_def)
next
  case (snoc g fs)
  then show ?case by (simp add: entryConstraints_snoc distinct_setProperty)
qed

text \<open>With pairwise different names, the entry of a field is its own rule set.\<close>

lemma entryConstraints_entry:
  assumes "distinct (map name fs)" and "f \<in> set fs" and "\<not> disabled f"
    and "name f \<noteq> ''__proto__''"
  shows "map_of (entryConstraints fs p) (name f) = Some (fieldConstraints f p)"
  using assms(1,2)
proof (induction fs rule: rev_induct)
  case Nil
  then show ?case by simp
next
  case (snoc g fs)
  show ?case
  proof (cases "f = g")
    case True
    with assms(3,4) show ?thesis by (simp add: entryConstraints_snoc map_of_setProperty)
  next
    case False
    with snoc.prems have "f \<in> set fs" "name g \<noteq> name f" by auto
    with snoc show ?thesis by (simp add: entryConstraints_snoc map_of_setProperty)
  qed
qed

lemma validate_no_constraint:
  "k \<notin> fst ` set cs \<Longrightarrow> map_of (validate c a cs) k = None"
  using validate_keys[of c a cs] by (auto simp: map_of_eq_None_iff)

text \<open>No TEXT field gets a length rule; a LONGTEXT field does.\<close>

lemma text_field_rules:
  "fieldType f = ''TEXT'' \<Longrightarrow>
     fieldConstraints f p =
       (if required f then [Presence None] else []) @
       (if format f = JStr ''uri'' then [Url] else if format f = JStr ''email'' then [Email] else [])"
  by (simp add: fieldConstraints_def)

lemma longtext_field_rules:
  "fieldType f = ''LONGTEXT'' \<Longrightarrow>
     fieldConstraints f p =
       (if required f then [Presence None] else []) @ [Length (minLength f) (maxLength f)]"
  by (simp add: fieldConstraints_def)

text \<open>
  Claim C1 fails on the code for TEXT: the branch for \<open>TEXT\<close> comes first in the chain
  and only looks at the format, so the branch that sets the length rule is reached by
  LONGTEXT alone. The plain TEXT field \<open>title\<close> of one to five characters gets no rule at
  all, and a title of thirteen characters is accepted.
\<close>

theorem text_field_has_no_length_rule:
  "fieldConstraints titleField projectId = []
   \<and> validateEntryFields c [titleField] [(''title'', JStr ''much too long'')] projectId = []"
  by (simp add: titleField_def fieldOf_def fieldConstraints_def validateEntryFields_def
      entryConstraints_def setProperty_def validate_async_def validate_def checkAttribute_def)

text \<open>
  Claim C5. A field definition with \<open>disabled = true\<close> adds nothing to the compiled
  constraint map: the map, and so the outcome of \<open>validateEntryFields\<close> on any submitted
  record, is the one of the definition without that field, whether the field is required
  or not. When no field that is not disabled bears the same name (field names are unique
  in a stored definition), the map has no entry under the field's name and no violation
  is reported under it.
\<close>

theorem disabled_field_is_skipped:
  assumes "disabled f"
  shows "entryConstraints (xs @ f # ys) projectId = entryConstraints (xs @ ys) projectId
    \<and> validateEntryFields c (xs @ f # ys) entryFields projectId
        = validateEntryFields c (xs @ ys) entryFields projectId
    \<and> ((\<forall>g \<in> set (xs @ ys). \<not> disabled g \<longrightarrow> name g \<noteq> name f) \<longrightarrow>
          map_of (entryConstraints (xs @ f # ys) projectId) (name f) = None
        \<and> map_of (validateEntryFields c (xs @ f # ys) entryFields projectId) (name f) = None)"
proof -
  have same: "entryConstraints (xs @ f # ys) projectId = entryConstraints (xs @ ys) projectId"
    using assms by (simp add: entryConstraints_def)
  then have same_outcome: "validateEntryFields c (xs @ f # ys) entryFields projectId
      = validateEntryFields c (xs @ ys) entryFields projectId"
    by (simp only: validateEntryFields_def)
  have "map_of (entryConstraints (xs @ f # ys) projectId) (name f) = None
      \<and> map_of (validateEntryFields c (xs @ f # ys) entryFields projectId) (name f) = None"
    if others: "\<forall>g \<in> set (xs @ ys). \<not> disabled g \<longrightarrow> name g \<noteq> name f"
  proof -
    have absent: "name f \<notin> fst ` set (entryConstraints (xs @ ys) projectId)"
    proof
      assume "name f \<in> fst ` set (entryConstraints (xs @ ys) projectId)"
      then have "name f \<in> name ` {g \<in> set (xs @ ys). \<not> disabled g \<and> name g \<noteq> ''__proto__''}"
        by (simp only: entryConstraints_keys)
      then obtain g where "g \<in> set (xs @ ys)" "\<not> disabled g" "name f = name g"
        by (elim imageE CollectE conjE)
      with others show False by (metis (no_types))
    qed
    then have "map_of (entryConstraints (xs @ ys) projectId) (name f) = None"
      by (simp only: map_of_eq_None_iff not_False_eq_True)
    moreover have "map_of (validate c (JObj entryFields) (entryConstraints (xs @ ys) projectId))
        (name f) = None"
      using absent by (rule validate_no_constraint)
    ultimately show ?thesis
      by (simp only: same validateEntryFields_def validate_async_def simp_thms)
  qed
  with same same_outcome show ?thesis by blast
qed

text \<open>
  The theorem at a definition whose only field is a required TEXT field \<open>title\<close> that is
  disabled: a record without the title and a record whose title is a number are both
  accepted.
\<close>

theorem disabled_field_is_skipped_witness:
  "entryConstraints [titleField\<lparr>required := True, disabled := True\<rparr>] (JNum 1) = []
   \<and> validateEntryFields emptyCollab [titleField\<lparr>required := True, disabled := True\<rparr>]
        [] (JNum 1) = []
   \<and> validateEntryFields emptyCollab [titleField\<lparr>required := True, disabled := True\<rparr>]
        [(''title'', JNum 7)] (JNum 1) = []"
  using disabled_field_is_skipped[where f = "titleField\<lparr>required := True, disabled := True\<rparr>"
      and xs = "[]" and ys = "[]" and c = emptyCollab and entryFields = "[]"
      and projectId = "JNum 1"]
    disabled_field_is_skipped[where f = "titleField\<lparr>required := True, disabled := True\<rparr>"
      and xs = "[]" and ys = "[]" and c = emptyCollab and entryFields = "[(''title'', JNum 7)]"
      and projectId = "JNum 1"]
  by (simp add: entryConstraints_def validateEntryFields_def validate_async_def validate_def)

text \<open>The rule set of a CHOICE field, in the order the loop body writes it.\<close>

lemma choice_field_rule_set:
  "fieldType f = ''CHOICE'' \<Longrightarrow>
     fieldConstraints f projectId =
       (if required f then [Presence None] else []) @
       [ChoicesUnion (choices f)] @
       (if format f = JStr ''single'' then [ArrayLength (JNum 1) JUndefined JUndefined]
        else if format f = JStr ''multiple'' then
          [ArrayLength JUndefined (JNum 1) JUndefined, UniqueArray]
        else [])"
  by (simp add: fieldConstraints_def)

text \<open>What the three rules mean on a submitted array, with the meaning the spec gives them.\<close>

lemma choice_rules_meaning:
  "choicesUnion (JArr cs) (JArr xs) = [] \<longleftrightarrow> list_all (\<lambda>x. list_ex (\<lambda>ch. strictEquals ch x) cs) xs"
  "arrayLength (JNum 1) JUndefined JUndefined (JArr xs) = [] \<longleftrightarrow> length xs = 1"
  "arrayLength JUndefined (JNum 1) JUndefined (JArr xs) = [] \<longleftrightarrow> 1 \<le> length xs"
  "uniqueArray (JArr xs) = [] \<longleftrightarrow> length (uniq xs) = length xs"
  by (auto simp: choicesUnion_def arrayLength_def uniqueArray_def isDefined_def Suc_le_eq)

lemma choice_rules_report:
  "concat (map (checkRule c a (JArr xs))
      ((if req then [Presence None] else []) @ [ChoicesUnion (JArr cs)] @
       (if fmt = JStr ''single'' then [ArrayLength (JNum 1) JUndefined JUndefined]
        else if fmt = JStr ''multiple'' then [ArrayLength JUndefined (JNum 1) JUndefined, UniqueArray]
        else []))) = []
    \<longleftrightarrow> list_all (\<lambda>x. list_ex (\<lambda>ch. strictEquals ch x) cs) xs
       \<and> (fmt = JStr ''single'' \<longrightarrow> length xs = 1)
       \<and> (fmt = JStr ''multiple'' \<longrightarrow> 1 \<le> length xs \<and> length (uniq xs) = length xs)"
proof (cases "fmt = JStr ''single''")
  case True
  then show ?thesis
    by (simp add: choice_rules_meaning presence_def isDefined_def)
next
  case False
  then show ?thesis
    by (cases "fmt = JStr ''multiple''")
      (simp_all add: choice_rules_meaning presence_def isDefined_def)
qed

text \<open>The report of a field with an ordinary name: that of its own rule set on its own value.\<close>

lemma validateEntryFields_entry:
  assumes "distinct (map name fs)" and "f \<in> set fs" and "\<not> disabled f"
    and "ordinaryKey (name f)"
  shows "map_of (validateEntryFields c fs entryFields p) (name f) =
    (if concat (map (checkRule c (JObj entryFields) (jsGet entryFields (name f)))
          (fieldConstraints f p)) = [] then None
     else Some (concat (map (checkRule c (JObj entryFields) (jsGet entryFields (name f)))
          (fieldConstraints f p))))"
proof -
  have key: "name f \<noteq> ''__proto__''"
    using assms(4) by (auto simp: ordinaryKey_def inheritedKeys_def)
  have "map_of (entryConstraints fs p) (name f) = Some (fieldConstraints f p)"
    using assms(1-3) key by (rule entryConstraints_entry)
  moreover have "getDeepObjectValue (JObj entryFields) (name f) = jsGet entryFields (name f)"
    using assms(4) by (simp add: ordinaryKey_def getDeepObjectValue_plain)
  ultimately show ?thesis
    by (simp add: validateEntryFields_def validate_async_def validate_map_of
        entryConstraints_distinct)
qed

text \<open>The spec's examples for the field \<open>size\<close>.\<close>

lemma choice_examples:
  "validateEntryFields c [sizeField] [(''size'', JArr [JStr ''a'', JStr ''b''])] p
     = [(''size'', [HasWrongArrayLength])]"
  "validateEntryFields c [sizeField] [(''size'', JArr [JStr ''a''])] p = []"
  "validateEntryFields c [sizeField] [(''size'', JArr [JStr ''d''])] p
     = [(''size'', [IsNotAValidChoice])]"
  by (simp_all add: sizeField_def fieldOf_def fieldConstraints_def validateEntryFields_def
      entryConstraints_def setProperty_def validate_async_def validate_def checkAttribute_def
      getDeepObjectValue_plain jsGet_def choicesUnion_def arrayLength_def isDefined_def)

text \<open>
  Claim C6 fails on the code for a CHOICE field whose name is not an ordinary key. The
  rule set of the field is stored with \<open>constraints[field.name] = fieldConstraints\<close> and
  the library reads a key of \<open>constraints\<close> as a path. For the field \<open>meta.size\<close>, one
  value out of \<open>a\<close>, \<open>b\<close>, \<open>c\<close>, the rules are run on \<open>fields.meta.size\<close>: the record
  that submits \<open>d\<close> under the field's name, and \<open>a\<close> under \<open>size\<close> of \<open>meta\<close>, is accepted,
  where the same value under the name \<open>size\<close> is reported. For the field \<open>__proto__\<close> the
  rule set is built as for any CHOICE field, and the compiled map has no entry for it.
\<close>

theorem choice_rules_missed_off_ordinary_names:
  "validateEntryFields c [sizeField\<lparr>name := ''meta.size''\<rparr>]
      [(''meta.size'', JArr [JStr ''d'']), (''meta'', JObj [(''size'', JArr [JStr ''a''])])] p = []
   \<and> validateEntryFields c [sizeField] [(''size'', JArr [JStr ''d''])] p
      = [(''size'', [IsNotAValidChoice])]
   \<and> fieldConstraints (sizeField\<lparr>name := ''__proto__''\<rparr>) p
      = [ChoicesUnion (JArr [JStr ''a'', JStr ''b'', JStr ''c'']),
         ArrayLength (JNum 1) JUndefined JUndefined]
   \<and> entryConstraints [sizeField\<lparr>name := ''__proto__''\<rparr>] p = []"
proof (intro conjI)
  have path: "keypathFrom [] False ''meta.size'' = [''meta'', ''size'']"
    by simp
  show "validateEntryFields c [sizeField\<lparr>name := ''meta.size''\<rparr>]
      [(''meta.size'', JArr [JStr ''d'']), (''meta'', JObj [(''size'', JArr [JStr ''a''])])] p = []"
    by (simp add: sizeField_def fieldOf_def fieldConstraints_def validateEntryFields_def
        entryConstraints_def setProperty_def validate_async_def validate_def checkAttribute_def
        getDeepObjectValue_def path jsGet_def choicesUnion_def arrayLength_def isDefined_def
        del: keypathFrom.simps)
next
  show "validateEntryFields c [sizeField] [(''size'', JArr [JStr ''d''])] p
      = [(''size'', [IsNotAValidChoice])]"
    by (rule choice_examples(3))
next
  show "fieldConstraints (sizeField\<lparr>name := ''__proto__''\<rparr>) p
      = [ChoicesUnion (JArr [JStr ''a'', JStr ''b'', JStr ''c'']),
         ArrayLength (JNum 1) JUndefined JUndefined]"
    by (simp add: sizeField_def fieldOf_def fieldConstraints_def)
next
  show "entryConstraints [sizeField\<lparr>name := ''__proto__''\<rparr>] p = []"
    by (simp add: sizeField_def fieldOf_def entryConstraints_def setProperty_def)
qed

text \<open>
  Under ordinary names the rule set does what its rules say. Take a stored definition
  whose field names are pairwise different and whose fields that are not disabled have
  ordinary names, a CHOICE field of it that is not disabled and whose \<open>choices\<close> is an
  array, and a record that submits an array for that field. Then \<open>validateEntryFields\<close>
  reports nothing under the field's name exactly when every submitted value is one of
  the choices and, for the format \<open>single\<close>, the array has exactly one element and, for
  the format \<open>multiple\<close>, the array has at least one element and no element twice.
\<close>

lemma choice_field_report:
  assumes "f \<in> set fs" and "\<not> disabled f" and "fieldType f = ''CHOICE''"
    and "distinct (map name fs)"
    and "\<forall>g \<in> set fs. \<not> disabled g \<longrightarrow> ordinaryKey (name g)"
    and "choices f = JArr cs"
    and "jsGet entryFields (name f) = JArr xs"
  shows "map_of (validateEntryFields c fs entryFields projectId) (name f) = None
    \<longleftrightarrow> list_all (\<lambda>x. list_ex (\<lambda>ch. strictEquals ch x) cs) xs
       \<and> (format f = JStr ''single'' \<longrightarrow> length xs = 1)
       \<and> (format f = JStr ''multiple'' \<longrightarrow> 1 \<le> length xs \<and> length (uniq xs) = length xs)"
proof -
  let ?report = "concat (map (checkRule c (JObj entryFields) (JArr xs))
    (fieldConstraints f projectId))"
  have "ordinaryKey (name f)"
    using assms(1,2,5) by blast
  with assms(4,1,2) have "map_of (validateEntryFields c fs entryFields projectId) (name f) =
    (if concat (map (checkRule c (JObj entryFields) (jsGet entryFields (name f)))
          (fieldConstraints f projectId)) = [] then None
     else Some (concat (map (checkRule c (JObj entryFields) (jsGet entryFields (name f)))
          (fieldConstraints f projectId))))"
    by (rule validateEntryFields_entry)
  then have "map_of (validateEntryFields c fs entryFields projectId) (name f) =
    (if ?report = [] then None else Some ?report)"
    by (simp only: assms(7))
  then have "map_of (validateEntryFields c fs entryFields projectId) (name f) = None
    \<longleftrightarrow> ?report = []"
    by (cases "?report = []") simp_all
  also have "?report = []
    \<longleftrightarrow> list_all (\<lambda>x. list_ex (\<lambda>ch. strictEquals ch x) cs) xs
       \<and> (format f = JStr ''single'' \<longrightarrow> length xs = 1)
       \<and> (format f = JStr ''multiple'' \<longrightarrow> 1 \<le> length xs \<and> length (uniq xs) = length xs)"
    unfolding choice_field_rule_set[OF assms(3)] assms(6)
    by (rule choice_rules_report)
  finally show ?thesis .
qed

lemma isInteger_of_int [simp]: "isInteger (of_int n)"
  by (simp add: isInteger_def)

lemma isInteger_numeral [simp]: "isInteger (numeral n)"
  using isInteger_of_int[of "numeral n"] by simp

lemma not_isInteger_11_2: "\<not> isInteger (11 / 2)"
  by code_simp

text \<open>
  Claim C7. For the definition with the required BOOLEAN field \<open>published\<close> and the
  optional NUMBER field \<open>rating\<close> (minValue 0, maxValue 5, format integer): the record
  \<open>{published: true, rating: 3}\<close> has no violation; the record \<open>{rating: 3}\<close> has the
  presence violation on \<open>published\<close>; the record \<open>{published: true, rating: 5.5}\<close> has the
  integer violation on \<open>rating\<close>.
\<close>

theorem published_rating_example:
  "validateEntryFields c [publishedField, ratingField]
      [(''published'', JBool True), (''rating'', JNum 3)] projectId = []
   \<and> validateEntryFields c [publishedField, ratingField]
      [(''rating'', JNum 3)] projectId = [(''published'', [CantBeBlank])]
   \<and> validateEntryFields c [publishedField, ratingField]
      [(''published'', JBool True), (''rating'', JNum (11 / 2))] projectId
      = [(''rating'', [MustBeAnInteger])]"
  by (simp add: publishedField_def ratingField_def fieldOf_def fieldConstraints_def
      validateEntryFields_def entryConstraints_def setProperty_def validate_async_def
      validate_def checkAttribute_def getDeepObjectValue_plain jsGet_def presence_def
      boolean_def numericality_def numberChecks_def isDefined_def not_isInteger_11_2)

section \<open>The shapes of the schema document\<close>

lemma fieldShapes_length: "length fieldShapes = 10"
  by code_simp

lemma fieldShapes_patterns:
  "map shapePattern fieldShapes = map (\<lambda>k. JStr (''^'' @ k @ ''$'')) fieldTypes"
  by code_simp

lemma fieldShapes_closed:
  "map (\<lambda>shape. attributeOf shape ''additionalProperties'') fieldShapes = replicate 10 (JBool False)"
  by code_simp

lemma fieldShapes_required:
  "map shapeRequired fieldShapes
     = map (\<lambda>kc. JArr (map (\<lambda>e. JStr (fst e)) (snd kc))) fieldTypeConstraints"
  by code_simp

lemma fieldShapes_properties:
  "map (\<lambda>shape. set (shapeProperties shape)) fieldShapes
     = map (\<lambda>kc. set (map fst (snd kc))) fieldTypeConstraints"
  by code_simp

text \<open>
  Claim C9. The \<open>oneOf\<close> under \<open>properties.fields.items\<close> of the schema document has
  ten shapes, one per known tag and in the order of the tags. The shape of the tag \<open>K\<close>
  restricts \<open>fieldType\<close> by the pattern \<open>^K$\<close>, sets \<open>additionalProperties\<close> to false,
  declares as its properties exactly the attributes of the constraint set of \<open>K\<close> (the
  common attributes and the attributes of that kind), and lists every one of them, in
  the catalogue's order, as required. The document is a constant of the model class: it
  takes no argument, so it is the same for every definition.
\<close>

theorem schema_field_shapes:
  "length fieldShapes = 10
   \<and> map shapePattern fieldShapes = map (\<lambda>k. JStr (''^'' @ k @ ''$'')) fieldTypes
   \<and> map (\<lambda>shape. attributeOf shape ''additionalProperties'') fieldShapes
       = replicate 10 (JBool False)
   \<and> map (\<lambda>shape. set (shapeProperties shape)) fieldShapes
       = map (\<lambda>kc. set (map fst (snd kc))) fieldTypeConstraints
   \<and> map shapeRequired fieldShapes
       = map (\<lambda>kc. JArr (map (\<lambda>e. JStr (fst e)) (snd kc))) fieldTypeConstraints"
  by (simp only: fieldShapes_length fieldShapes_patterns fieldShapes_closed
      fieldShapes_properties fieldShapes_required simp_thms)

section \<open>The bounds of a NUMBER field\<close>





text \<open>The field object \<open>rating\<close> has a known tag, a name of its own, and no bounds.\<close>

lemma ratingWithoutBounds_attributes:
  "jsGet ratingWithoutBounds ''fieldType'' = JStr ''NUMBER''"
  "jsGet ratingWithoutBounds ''name'' = JStr ''rating''"
  "jsGet ratingWithoutBounds ''minValue'' = JUndefined"
  "jsGet ratingWithoutBounds ''maxValue'' = JUndefined"
  by (simp_all add: ratingWithoutBounds_def jsGet_def)




text \<open>
  The whole definition that holds this field: accepted when the rule passes the absent
  value, rejected with the report of that rule when it does not.
\<close>

lemma number_without_bounds_outcomes:
  "beforeValidate emptyCollab () (articleWith [JObj ratingWithoutBounds]) = Inr ()"
  "beforeValidate strictCollab () (articleWith [JObj ratingWithoutBounds])
     = Inl (ValidationFieldErrors
         [(''rating'', [(''minValue'', [MustBeLessThanAttribute ''maxValue''])])])"
proof -
  have loop: "beforeValidate c () (articleWith [JObj ratingWithoutBounds]) =
     (if fieldStep c [] ratingWithoutBounds \<noteq> []
      then Inl (ValidationFieldErrors (fieldStep c [] ratingWithoutBounds))
      else Inr ())" for c
  proof -
    have "forEachField c (map JObj [ratingWithoutBounds]) []
        = Inr (foldl (fieldStep c) [] [ratingWithoutBounds])"
      by (rule forEachField_known) (simp add: ratingWithoutBounds_attributes fieldTypes_eq)
    moreover have "beforeValidate c () (articleWith (map JObj [ratingWithoutBounds])) =
      (case forEachField c (map JObj [ratingWithoutBounds]) [] of
         Inl e \<Rightarrow> Inl e
       | Inr fieldErrors \<Rightarrow>
           if fieldErrors \<noteq> [] then Inl (ValidationFieldErrors fieldErrors) else Inr ())"
      by (rule beforeValidate_loop) (simp_all add: articleWith_top_level articleWith_fields uniq_def)
    ultimately show ?thesis by simp
  qed
  have "validate emptyCollab (JObj ratingWithoutBounds) (constraintsFor (JStr ''NUMBER'')) = []"
    by (simp only: constraintsFor_NUMBER)
      (simp add: commonFieldConstraints_def numberFieldConstraints_def
        validate_def checkAttribute_def getDeepObjectValue_plain ratingWithoutBounds_def
        jsGet_def presence_def length_rule_def boolean_def numericality_def numberChecks_def
        lessThanAttribute_def inclusion_def isDefined_def isSpace_def emptyCollab_def)
  then have "fieldStep emptyCollab [] ratingWithoutBounds = []"
    unfolding fieldStep_def ratingWithoutBounds_attributes by simp
  then show "beforeValidate emptyCollab () (articleWith [JObj ratingWithoutBounds]) = Inr ()"
    by (simp only: loop) simp
  have "validate strictCollab (JObj ratingWithoutBounds) (constraintsFor (JStr ''NUMBER''))
      = [(''minValue'', [MustBeLessThanAttribute ''maxValue''])]"
    by (simp only: constraintsFor_NUMBER)
      (simp add: commonFieldConstraints_def numberFieldConstraints_def
        validate_def checkAttribute_def getDeepObjectValue_plain ratingWithoutBounds_def
        jsGet_def presence_def length_rule_def boolean_def numericality_def numberChecks_def
        lessThanAttribute_def inclusion_def isDefined_def isSpace_def emptyCollab_def
        strictCollab_def)
  then have "fieldStep strictCollab [] ratingWithoutBounds
      = [(''rating'', [(''minValue'', [MustBeLessThanAttribute ''maxValue''])])]"
    unfolding fieldStep_def ratingWithoutBounds_attributes by (simp add: setProperty_def)
  then show "beforeValidate strictCollab () (articleWith [JObj ratingWithoutBounds])
     = Inl (ValidationFieldErrors
         [(''rating'', [(''minValue'', [MustBeLessThanAttribute ''maxValue''])])])"
    by (simp only: loop) simp
qed

section \<open>The name of a content type\<close>

text \<open>
  Claim C2 fails on the code for the names of one to three characters: the constraint
  set of the top-level check asks for a name of at least four characters, and asks for
  no maximum, where the schema document of the same class asks for one to sixty-four.
  The definition named \<open>abc\<close> with every other top-level attribute valid is rejected by
  the top-level check with the report that the name is too short.
\<close>

theorem short_name_rejected:
  "beforeValidate c schema
      [(''name'', JStr ''abc''), (''projectId'', JNum 1), (''userId'', JNum 1), (''fields'', JArr [])]
     = Inl (ValidationErrors [(''name'', [IsTooShort])])
   \<and> map_of entryTypeConstraints ''name'' = Some [Presence (Some False), Length (JNum 4) JUndefined]
   \<and> attributeOf (attributeOf jsonSchema ''properties'') ''name''
       = JObj [(''type'', JStr ''string''), (''minLength'', JNum 1), (''maxLength'', JNum 64)]"
proof -
  have "beforeValidate c schema
      [(''name'', JStr ''abc''), (''projectId'', JNum 1), (''userId'', JNum 1), (''fields'', JArr [])]
     = Inl (ValidationErrors [(''name'', [IsTooShort])])"
    by (simp add: beforeValidate_def validate_def entryTypeConstraints_def checkAttribute_def
        getDeepObjectValue_plain jsGet_def presence_def length_rule_def numericality_def numberChecks_def isDefined_def isSpace_def
        isInteger_def)
  moreover have "map_of entryTypeConstraints ''name''
      = Some [Presence (Some False), Length (JNum 4) JUndefined]"
    by (simp add: entryTypeConstraints_def)
  moreover have "attributeOf (attributeOf jsonSchema ''properties'') ''name''
       = JObj [(''type'', JStr ''string''), (''minLength'', JNum 1), (''maxLength'', JNum 64)]"
    by code_simp
  ultimately show ?thesis by (simp only: simp_thms)
qed

text \<open>Every name of fewer than four characters that is not blank is reported so.\<close>

lemma short_names_rejected:
  assumes "jsGet json ''name'' = JStr s" and "length s < 4" and "\<not> list_all isSpace s"
  shows "map_of (validate c (JObj json) entryTypeConstraints) ''name'' = Some [IsTooShort]"
proof -
  have "getDeepObjectValue (JObj json) ''name'' = JStr s"
    using assms(1) by (simp add: getDeepObjectValue_plain)
  moreover
  have "distinct (map fst entryTypeConstraints)"
    by (simp add: entryTypeConstraints_def)
  moreover have "map_of entryTypeConstraints ''name''
      = Some [Presence (Some False), Length (JNum 4) JUndefined]"
    by (simp add: entryTypeConstraints_def)
  ultimately show ?thesis
    using assms(2,3) by (simp add: validate_map_of presence_def length_rule_def isDefined_def)
qed

end
